theory Spec2Isabelle
  imports Complex_Main "HOL-Library.AList" "HOL-Library.Sublist"
begin
section \<open>Values, units and errors\<close>

text \<open>
  A numpy float is modelled as an exact real or one of the three IEEE special values;
  rounding and signed zeros are not modelled. \<open>isfinite\<close> is \<open>numpy.isfinite\<close>.
\<close>

datatype fnum = Fin real | PInf | NInf | NaN

fun isfinite :: "fnum \<Rightarrow> bool" where
  "isfinite (Fin _) = True"
| "isfinite _ = False"

fun fin_val :: "fnum \<Rightarrow> real" where
  "fin_val (Fin r) = r"
| "fin_val _ = 0"

fun fneg :: "fnum \<Rightarrow> fnum" where
  "fneg (Fin a) = Fin (- a)"
| "fneg PInf = NInf"
| "fneg NInf = PInf"
| "fneg NaN = NaN"

fun fadd :: "fnum \<Rightarrow> fnum \<Rightarrow> fnum" where
  "fadd (Fin a) (Fin b) = Fin (a + b)"
| "fadd NaN _ = NaN"
| "fadd _ NaN = NaN"
| "fadd PInf NInf = NaN"
| "fadd NInf PInf = NaN"
| "fadd PInf _ = PInf"
| "fadd NInf _ = NInf"
| "fadd _ PInf = PInf"
| "fadd _ NInf = NInf"

definition fsub :: "fnum \<Rightarrow> fnum \<Rightarrow> fnum" where
  "fsub a b = fadd a (fneg b)"

fun inf_of_sign :: "real \<Rightarrow> fnum" where
  "inf_of_sign s = (if s = 0 then NaN else if 0 < s then PInf else NInf)"

fun fsign :: "fnum \<Rightarrow> real" where
  "fsign (Fin a) = sgn a"
| "fsign PInf = 1"
| "fsign NInf = - 1"
| "fsign NaN = 0"

fun fmul :: "fnum \<Rightarrow> fnum \<Rightarrow> fnum" where
  "fmul (Fin a) (Fin b) = Fin (a * b)"
| "fmul NaN _ = NaN"
| "fmul _ NaN = NaN"
| "fmul a b = inf_of_sign (fsign a * fsign b)"

text \<open>Division as \<open>numpy.true_divide\<close>: a division by zero is a value, not an exception.\<close>

fun fdiv :: "fnum \<Rightarrow> fnum \<Rightarrow> fnum" where
  "fdiv NaN _ = NaN"
| "fdiv _ NaN = NaN"
| "fdiv (Fin a) (Fin b) = (if b = 0 then inf_of_sign a else Fin (a / b))"
| "fdiv (Fin a) _ = Fin 0"
| "fdiv PInf (Fin b) = (if 0 \<le> b then PInf else NInf)"
| "fdiv NInf (Fin b) = (if 0 \<le> b then NInf else PInf)"
| "fdiv _ _ = NaN"

datatype units = u_deg | u_rad | u_hourangle | u_d | u_s | u_GeV | u_TeV | u_one

datatype dimension = Angle | Time | Energy | Dimensionless

fun dimension_of :: "units \<Rightarrow> dimension" where
  "dimension_of u_deg = Angle"
| "dimension_of u_rad = Angle"
| "dimension_of u_hourangle = Angle"
| "dimension_of u_d = Time"
| "dimension_of u_s = Time"
| "dimension_of u_GeV = Energy"
| "dimension_of u_TeV = Energy"
| "dimension_of u_one = Dimensionless"

text \<open>
  The outcomes of the source other than a returned value. \<open>NonFiniteInput\<close> is not an
  exception of the source: it marks array contents (NaN, infinities) on which the result of
  numpy's sort, percentile and reductions is floating-point behaviour left outside this model.
\<close>

datatype error =
    RuntimeError string
  | TypeError
  | KeyError string
  | UnboundLocalError string
  | AttributeError
  | ValueError
  | IndexError
  | AxisError
  | UnitConversionError
  | OSError
  | NonFiniteInput

text \<open>
  A column is a numpy array, or an astropy \<open>Quantity\<close> when it carries a unit
  (\<open>array * unit\<close>).
\<close>

record column =
  vals :: "fnum list"
  unit :: "units option"

definition plain :: "fnum list \<Rightarrow> column" where
  "plain xs = \<lparr>vals = xs, unit = None\<rparr>"

definition tagged :: "fnum list \<Rightarrow> units \<Rightarrow> column" where
  "tagged xs u = \<lparr>vals = xs, unit = Some u\<rparr>"

section \<open>EventSample\<close>

text \<open>
  The fields of \<open>EventSample\<close>; \<open>None\<close> is Python's \<open>None\<close>. There is no field for
  \<open>pointing_alt\<close>: it is a property computed from \<open>pointing_zd\<close>.
\<close>

record EventSample =
  event_ra :: "column option"
  event_dec :: "column option"
  event_energy :: "column option"
  pointing_ra :: "column option"
  pointing_dec :: "column option"
  pointing_az :: "column option"
  pointing_zd :: "column option"
  mjd :: "column option"
  delta_t :: "column option"
  eff_obs_time :: "(fnum \<times> units option) option"

subsection \<open>numpy on finite arrays\<close>

definition np_diff :: "real list \<Rightarrow> real list" where
  "np_diff a = map (\<lambda>(x, y). y - x) (zip a (tl a))"

text \<open>
  \<open>numpy.percentile(a, q)\<close> with the default linear interpolation, for a non-empty array
  (the only call is guarded by \<open>len(time_diff)\<close>).
\<close>

definition np_percentile :: "real list \<Rightarrow> real \<Rightarrow> real" where
  "np_percentile a q =
     (let s = sort a;
          n = length s;
          virtual_index = real (n - 1) * (q / 100);
          previous_index = nat \<lfloor>virtual_index\<rfloor>;
          next_index = min (previous_index + 1) (n - 1);
          gamma = virtual_index - real previous_index
      in s ! previous_index + (s ! next_index - s ! previous_index) * gamma)"

definition np_amin :: "real list \<Rightarrow> real" where
  "np_amin a = Min (set a)"

definition np_mean :: "real list \<Rightarrow> real" where
  "np_mean a = sum_list a / real (length a)"

subsection \<open>calc_eff_obs_time\<close>

text \<open>
  \<open>self.delta_t > 0.0 * u.s\<close>: the comparison needs a time unit on \<open>delta_t\<close>; an array
  without unit is accepted by astropy only when all its values are zero (or not finite).
\<close>

definition positive_mask :: "column \<Rightarrow> error + bool list" where
  "positive_mask d =
     (case unit d of
        Some u \<Rightarrow> if dimension_of u = Time then Inr (map (\<lambda>v. 0 < fin_val v) (vals d))
                  else Inl UnitConversionError
      | None \<Rightarrow> if list_all (\<lambda>v. v = Fin 0) (vals d) then Inr (map (\<lambda>v. 0 < fin_val v) (vals d))
                else Inl UnitConversionError)"

definition masked :: "'a list \<Rightarrow> bool list \<Rightarrow> 'a list" where
  "masked xs m = map fst (filter snd (zip xs m))"

text \<open>
  The unit of \<open>t_elapsed / (1 + rate * dead_time)\<close>: the divisor is a dimensionless
  quantity, so the result has the unit of \<open>mjd\<close>, and is a dimensionless quantity when
  \<open>mjd\<close> is an array without unit.
\<close>

definition result_unit :: "units option \<Rightarrow> units option" where
  "result_unit u = (case u of None \<Rightarrow> Some u_one | Some v \<Rightarrow> Some v)"

text \<open>
  \<open>t_elapsed\<close> is \<open>None\<close> when there is no time difference; the division at the end then
  raises \<open>TypeError\<close> (\<open>None / Quantity\<close>).
\<close>

definition calc_eff_obs_time :: "EventSample \<Rightarrow> error + (fnum \<times> units option) option" where
  "calc_eff_obs_time self =
     (case mjd self of
        None \<Rightarrow> Inl AxisError
      | Some m \<Rightarrow>
          if \<not> list_all isfinite (vals m) then Inl NonFiniteInput
          else
            let mjd_sorted = sort (map fin_val (vals m));
                time_diff = np_diff mjd_sorted;
                t_elapsed =
                  (if length time_diff \<noteq> 0 then
                     let time_diff_max = np_percentile time_diff (9999 / 100);
                         time_diff' = filter (\<lambda>d. d < time_diff_max) time_diff
                     in Some (sum_list (filter (\<lambda>d. d < time_diff_max) time_diff'))
                   else None)
            in (case delta_t self of
                  None \<Rightarrow> Inl TypeError
                | Some d \<Rightarrow>
                    if \<not> list_all isfinite (vals d) then Inl NonFiniteInput
                    else
                      (case positive_mask d of
                         Inl e \<Rightarrow> Inl e
                       | Inr pos \<Rightarrow>
                           let delta_t' = map fin_val (masked (vals d) pos)
                           in if length delta_t' > 0 then
                                let dead_time = np_amin delta_t';
                                    rate = fdiv (Fin 1) (Fin (np_mean delta_t' - dead_time))
                                in (case t_elapsed of
                                      None \<Rightarrow> Inl TypeError
                                    | Some t \<Rightarrow>
                                        Inr (Some (fdiv (Fin t)
                                                     (fadd (Fin 1) (fmul rate (Fin dead_time))),
                                                   result_unit (unit m))))
                              else Inr None)))"

text \<open>
  \<open>EventSample.__init__\<close>: the effective time is computed when none is passed in.
\<close>

definition EventSample_init ::
  "column option \<Rightarrow> column option \<Rightarrow> column option \<Rightarrow> column option \<Rightarrow> column option \<Rightarrow>
   column option \<Rightarrow> column option \<Rightarrow> column option \<Rightarrow> column option \<Rightarrow>
   (fnum \<times> units option) option \<Rightarrow> error + EventSample" where
  "EventSample_init e_ra e_dec e_energy p_ra p_dec p_az p_zd m d eff =
     (let self = \<lparr>event_ra = e_ra, event_dec = e_dec, event_energy = e_energy,
                   pointing_ra = p_ra, pointing_dec = p_dec, pointing_az = p_az,
                   pointing_zd = p_zd, mjd = m, delta_t = d, eff_obs_time = None\<rparr>
      in (case eff of
            None \<Rightarrow> (case calc_eff_obs_time self of
                       Inl e \<Rightarrow> Inl e
                     | Inr t \<Rightarrow> Inr (self\<lparr>eff_obs_time := t\<rparr>))
          | Some t \<Rightarrow> Inr (self\<lparr>eff_obs_time := Some t\<rparr>)))"

subsection \<open>The effective time as the specification words it\<close>

definition consecutive_differences :: "real list \<Rightarrow> real list" where
  "consecutive_differences xs = map (\<lambda>i. xs ! (i + 1) - xs ! i) [0..<length xs - 1]"

definition spec_t_elapsed :: "real list \<Rightarrow> real" where
  "spec_t_elapsed ms =
     (let diffs = consecutive_differences (sort ms);
          threshold = np_percentile diffs (9999 / 100)
      in sum_list (filter (\<lambda>d. d < threshold) diffs))"

definition positive_entries :: "real list \<Rightarrow> real list" where
  "positive_entries ds = filter (\<lambda>x. 0 < x) ds"

definition spec_dead_time :: "real list \<Rightarrow> real" where
  "spec_dead_time ds = Min (set (positive_entries ds))"

definition spec_rate :: "real list \<Rightarrow> fnum" where
  "spec_rate ds =
     fdiv (Fin 1) (Fin (sum_list (positive_entries ds) / real (length (positive_entries ds))
                        - spec_dead_time ds))"

definition spec_t_eff :: "real list \<Rightarrow> real list \<Rightarrow> fnum" where
  "spec_t_eff ms ds =
     fdiv (Fin (spec_t_elapsed ms)) (fadd (Fin 1) (fmul (spec_rate ds) (Fin (spec_dead_time ds))))"


subsection \<open>pointing_alt\<close>

text \<open>Degrees per unit, for the angular units.\<close>

fun deg_per :: "units \<Rightarrow> real" where
  "deg_per u_rad = 180 / pi"
| "deg_per u_hourangle = 15"
| "deg_per _ = 1"

text \<open>The value in degrees of an angle given in the unit \<open>u\<close> (\<open>angle.to(u.deg)\<close>).\<close>

definition in_degrees :: "units \<Rightarrow> fnum \<Rightarrow> fnum" where
  "in_degrees u z = fmul z (Fin (deg_per u))"

text \<open>
  astropy lets an array without unit take part in quantity arithmetic only when it is all
  zero, infinite or NaN.
\<close>

definition can_have_arbitrary_unit :: "fnum \<Rightarrow> bool" where
  "can_have_arbitrary_unit v = (v = Fin 0 \<or> \<not> isfinite v)"

text \<open>\<open>90 * u.deg - self.pointing_zd\<close>: the result is in degrees.\<close>

definition pointing_alt :: "EventSample \<Rightarrow> error + column" where
  "pointing_alt self =
     (case pointing_zd self of
        None \<Rightarrow> Inl TypeError
      | Some zd \<Rightarrow>
          (case unit zd of
             Some u \<Rightarrow>
               if dimension_of u = Angle
               then Inr (tagged (map (\<lambda>z. fsub (Fin 90) (in_degrees u z)) (vals zd)) u_deg)
               else Inl UnitConversionError
           | None \<Rightarrow>
               if list_all can_have_arbitrary_unit (vals zd)
               then Inr (tagged (map (\<lambda>z. fsub (Fin 90) z) (vals zd)) u_deg)
               else Inl UnitConversionError))"

section \<open>Input files\<close>

text \<open>
  A table (a ROOT tree, a pandas DataFrame, a FITS binary table): named columns over the
  same rows. A row gives the value of every column of \<open>cols\<close>. A cut is a predicate on rows;
  \<open>None\<close> is no cut.
\<close>

record table =
  cols :: "string list"
  rows :: "(string \<Rightarrow> fnum) list"

type_synonym cut = "(string \<Rightarrow> fnum) \<Rightarrow> bool"

definition col :: "table \<Rightarrow> string \<Rightarrow> fnum list" where
  "col t k = map (\<lambda>r. r k) (rows t)"

definition query :: "cut option \<Rightarrow> table \<Rightarrow> table" where
  "query cuts t = (case cuts of None \<Rightarrow> t | Some c \<Rightarrow> t\<lparr>rows := filter c (rows t)\<rparr>)"

record fits_hdu =
  header :: "string \<Rightarrow> fnum option"
  data :: table

text \<open>
  What a path holds: a ROOT file with or without its \<open>Events\<close> tree, an HDF5 file with or
  without the table \<open>dl2/event/telescope/parameters/LST_LSTCam\<close>, a FITS file with or
  without its \<open>EVENTS\<close> extension. Opening a path with the reader of another format, or a
  path that holds nothing, is an \<open>OSError\<close>.
\<close>

datatype file_content =
    RootFile "table option"
  | Hdf5File "table option"
  | FitsFile "fits_hdu option"

type_synonym filesystem = "string \<Rightarrow> file_content option"

text \<open>
  The functions of astropy the loaders call, as parameters: times (\<open>Time(..., format='unix').mjd\<close>,
  and the same after adding the LST epoch) and the transformations between the horizontal
  frame of the observatory at a given time and ICRS. They are total functions of one event:
  an exception that astropy raises by itself (for instance on an empty array of times) is
  outside the model.
\<close>

record astro =
  unix_to_mjd :: "fnum \<Rightarrow> fnum"
  lst_epoch_to_mjd :: "fnum \<Rightarrow> fnum"
  altaz_to_icrs :: "fnum \<Rightarrow> fnum \<Rightarrow> fnum \<Rightarrow> fnum \<times> fnum"
  icrs_to_altaz :: "fnum \<Rightarrow> fnum \<Rightarrow> fnum \<Rightarrow> fnum \<times> fnum"

subsection \<open>Exceptions and dictionaries\<close>

definition ebind :: "error + 'a \<Rightarrow> ('a \<Rightarrow> error + 'b) \<Rightarrow> error + 'b" where
  "ebind m f = (case m of Inl e \<Rightarrow> Inl e | Inr x \<Rightarrow> f x)"

text \<open>
  \<open>event_data\<close>: a dictionary from field names to arrays (or \<open>None\<close>), in insertion order.
\<close>

type_synonym event_dict = "(string \<times> column option) list"

definition getitem :: "(string \<times> 'v) list \<Rightarrow> string \<Rightarrow> error + 'v" where
  "getitem d k = (case map_of d k of None \<Rightarrow> Inl (KeyError k) | Some v \<Rightarrow> Inr v)"

text \<open>
  \<open>numpy.prod(finite, axis=0, dtype=bool)\<close>: the element-wise conjunction of the masks.
  Masks of different lengths cannot be stacked (\<open>ValueError\<close>). With no mask at all the
  result is never used: the loops over \<open>event_data\<close> that follow have nothing to filter.
\<close>

definition np_prod_bool :: "bool list list \<Rightarrow> error + bool list" where
  "np_prod_bool finite_list =
     (case finite_list of
        [] \<Rightarrow> Inr []
      | f # fs \<Rightarrow>
          if list_all (\<lambda>g. length g = length f) fs
          then Inr (foldl (\<lambda>acc g. map2 (\<and>) acc g) f fs)
          else Inl ValueError)"

text \<open>\<open>numpy.isfinite(event_data[key])\<close>; on \<open>None\<close> it raises \<open>TypeError\<close>.\<close>

definition np_isfinite :: "column option \<Rightarrow> error + bool list" where
  "np_isfinite c = (case c of None \<Rightarrow> Inl TypeError | Some a \<Rightarrow> Inr (map isfinite (vals a)))"

fun collect :: "(error + 'a) list \<Rightarrow> error + 'a list" where
  "collect [] = Inr []"
| "collect (x # xs) =
     (case x of Inl e \<Rightarrow> Inl e
      | Inr v \<Rightarrow> (case collect xs of Inl e \<Rightarrow> Inl e | Inr vs \<Rightarrow> Inr (v # vs)))"

text \<open>\<open>array[all_finite]\<close>, then \<open>array * unit\<close> for a field of \<open>data_units\<close>.\<close>

definition select_and_tag :: "(string \<times> units) list \<Rightarrow> bool list \<Rightarrow> string \<Rightarrow> column \<Rightarrow> column" where
  "select_and_tag data_units all_finite key c =
     (let c' = c\<lparr>vals := masked (vals c) all_finite\<rparr>
      in (case map_of data_units key of None \<Rightarrow> c' | Some u \<Rightarrow> c'\<lparr>unit := Some u\<rparr>))"

subsection \<open>MagicRootEventFile.load_events\<close>

definition magic_array_list :: "string list" where
  "magic_array_list =
     [''MRawEvtHeader_1.fDAQEvtNumber'', ''MRawEvtHeader_1.fTimeDiff'',
      ''MStereoParDisp.fDirectionRA'', ''MStereoParDisp.fDirectionDec'',
      ''MEnergyEst.fEnergy'', ''MPointingPos_1.fZd'', ''MPointingPos_1.fAz'',
      ''MPointingPos_1.fRa'', ''MPointingPos_1.fDec'', ''MHadronness.fHadronness'']"

definition magic_data_units :: "(string \<times> units) list" where
  "magic_data_units =
     [(''event_ra'', u_hourangle), (''event_dec'', u_deg), (''event_energy'', u_GeV),
      (''pointing_ra'', u_hourangle), (''pointing_dec'', u_deg), (''pointing_az'', u_deg),
      (''pointing_zd'', u_deg), (''mjd'', u_d), (''delta_t'', u_s), (''gammaness'', u_one)]"

definition magic_time_array_list :: "string list" where
  "magic_time_array_list = [''MTime_1.fMjd'', ''MTime_1.fTime.fMilliSec'', ''MTime_1.fNanoSec'']"

definition magic_mc_array_list :: "string list" where
  "magic_mc_array_list = [''MMcEvt_1.fEnergy'', ''MMcEvt_1.fTheta'', ''MMcEvt_1.fPhi'']"

definition magic_data_names_mapping :: "(string \<times> string) list" where
  "magic_data_names_mapping =
     [(''MRawEvtHeader_1.fDAQEvtNumber'', ''daq_event_number''),
      (''MRawEvtHeader_1.fTimeDiff'', ''delta_t''),
      (''MStereoParDisp.fDirectionRA'', ''event_ra''),
      (''MStereoParDisp.fDirectionDec'', ''event_dec''),
      (''MEnergyEst.fEnergy'', ''event_energy''),
      (''MPointingPos_1.fZd'', ''pointing_zd''),
      (''MPointingPos_1.fAz'', ''pointing_az''),
      (''MPointingPos_1.fRa'', ''pointing_ra''),
      (''MPointingPos_1.fDec'', ''pointing_dec'')]"

definition magic_mc_names_mapping :: "(string \<times> string) list" where
  "magic_mc_names_mapping =
     [(''MMcEvt_1.fEnergy'', ''true_energy''), (''MMcEvt_1.fTheta'', ''true_zd''),
      (''MMcEvt_1.fPhi'', ''true_az'')]"

text \<open>
  \<open>tree.arrays(names, cut=cuts, library="np")\<close>: a branch that the tree does not have is a
  \<open>KeyError\<close> (uproot's \<open>KeyInFileError\<close>); the arrays are read from the rows that pass the cut.
\<close>

definition arrays :: "table \<Rightarrow> string list \<Rightarrow> cut option \<Rightarrow> error + table" where
  "arrays tree names cuts =
     (case filter (\<lambda>k. k \<notin> set (cols tree)) names of
        k # _ \<Rightarrow> Inl (KeyError k)
      | [] \<Rightarrow> Inr (query cuts tree))"

definition np_degrees :: "fnum \<Rightarrow> fnum" where
  "np_degrees x = fmul x (Fin (180 / pi))"

definition zeros0 :: "column option" where
  "zeros0 = Some (plain [])"

text \<open>The part of \<open>load_events\<close> inside \<open>with uproot.open(file_name)\<close>.\<close>

definition magic_read :: "table option \<Rightarrow> cut option \<Rightarrow> error + event_dict" where
  "magic_read input_file cuts =
     (case input_file of
        Some events \<Rightarrow>
          ebind (arrays events magic_array_list cuts) (\<lambda>data.
            let event_data =
                  map (\<lambda>(key, name). (name, Some (plain (col data key)))) magic_data_names_mapping;
                event_data =
                  AList.update ''gammaness''
                    (Some (plain (map (\<lambda>h. fsub (Fin 1) h) (col data ''MHadronness.fHadronness''))))
                    event_data;
                is_mc = (''MMcEvt_1.'' \<in> set (cols events))
            in if is_mc then
                 ebind (arrays events magic_mc_array_list cuts) (\<lambda>data.
                   let event_data =
                         fold (\<lambda>(key, name). AList.update name (Some (plain (col data key))))
                           magic_mc_names_mapping event_data;
                       event_data =
                         AList.update ''true_zd''
                           (Some (plain (map np_degrees (col data ''MMcEvt_1.fTheta'')))) event_data;
                       event_data =
                         AList.update ''true_az''
                           (Some (plain (map (\<lambda>phi. fmul (Fin (- 1))
                                     (fadd (fsub (np_degrees phi) (Fin 180)) (Fin 7)))
                                   (col data ''MMcEvt_1.fPhi'')))) event_data
                   in Inr (AList.update ''mjd'' zeros0 event_data))
               else
                 ebind (arrays events magic_time_array_list cuts) (\<lambda>data.
                   Inr (AList.update ''mjd''
                          (Some (plain (map (\<lambda>r. fadd (r ''MTime_1.fMjd'')
                                    (fdiv (fadd (fdiv (r ''MTime_1.fTime.fMilliSec'') (Fin 1000))
                                                (fdiv (r ''MTime_1.fNanoSec'') (Fin 1000000000)))
                                          (Fin 86400)))
                                  (rows data))))
                          event_data)))
      | None \<Rightarrow>
          Inr (AList.update ''mjd'' zeros0
                 (map (\<lambda>(key, name). (name, zeros0)) magic_data_names_mapping)))"

text \<open>
  The finite mask and the unit tags. Every entry is filtered (\<open>event_data[key][all_finite]\<close>)
  and then tagged.
\<close>

definition magic_finite :: "event_dict \<Rightarrow> error + event_dict" where
  "magic_finite event_data =
     ebind (collect (map (\<lambda>(key, v). np_isfinite v) event_data)) (\<lambda>finite_list.
     ebind (np_prod_bool finite_list) (\<lambda>all_finite.
       Inr (map (\<lambda>(key, v). (key, map_option (select_and_tag magic_data_units all_finite key) v))
              event_data)))"

text \<open>
  The call \<open>EventSample(event_data['event_ra'], ..., event_data['mjd'], delta_t, eff_obs_time)\<close>:
  the arguments are evaluated from left to right, the last two (\<open>rest\<close>) after the lookups.
\<close>

definition make_sample ::
  "event_dict \<Rightarrow> (error + column option \<times> (fnum \<times> units option) option) \<Rightarrow> error + EventSample" where
  "make_sample event_data rest =
     ebind (getitem event_data ''event_ra'') (\<lambda>e_ra.
     ebind (getitem event_data ''event_dec'') (\<lambda>e_dec.
     ebind (getitem event_data ''event_energy'') (\<lambda>e_energy.
     ebind (getitem event_data ''pointing_ra'') (\<lambda>p_ra.
     ebind (getitem event_data ''pointing_dec'') (\<lambda>p_dec.
     ebind (getitem event_data ''pointing_az'') (\<lambda>p_az.
     ebind (getitem event_data ''pointing_zd'') (\<lambda>p_zd.
     ebind (getitem event_data ''mjd'') (\<lambda>m.
     ebind rest (\<lambda>(d, eff).
       EventSample_init e_ra e_dec e_energy p_ra p_dec p_az p_zd m d eff)))))))))"

definition MagicRoot_load_events :: "filesystem \<Rightarrow> string \<Rightarrow> cut option \<Rightarrow> error + EventSample" where
  "MagicRoot_load_events fs file_name cuts =
     (case fs file_name of
        Some (RootFile input_file) \<Rightarrow>
          ebind (magic_read input_file cuts) (\<lambda>event_data.
          ebind (magic_finite event_data) (\<lambda>event_data.
            make_sample event_data
              (ebind (getitem event_data ''delta_t'') (\<lambda>d. Inr (d, None)))))
      | _ \<Rightarrow> Inl OSError)"

subsection \<open>LstDl2EventFile.load_events\<close>

definition dl2_data_units :: "(string \<times> units) list" where
  "dl2_data_units =
     [(''delta_t'', u_s), (''event_ra'', u_rad), (''event_dec'', u_rad),
      (''event_energy'', u_TeV), (''gammaness'', u_one), (''mjd'', u_d),
      (''pointing_ra'', u_rad), (''pointing_dec'', u_rad), (''pointing_az'', u_rad),
      (''pointing_zd'', u_rad)]"

definition dl2_data_names_mapping :: "(string \<times> string) list" where
  "dl2_data_names_mapping =
     [(''trigger_type'', ''trigger_pattern''), (''event_id'', ''daq_event_number''),
      (''reco_ra'', ''event_ra''), (''reco_dec'', ''event_dec''),
      (''gammaness'', ''gammaness''), (''reco_energy'', ''event_energy''),
      (''mjd'', ''mjd''), (''delta_t'', ''delta_t''),
      (''az_tel'', ''pointing_az''), (''zd_tel'', ''pointing_zd''),
      (''ra_tel'', ''pointing_ra''), (''dec_tel'', ''pointing_dec''),
      (''mc_energy'', ''true_energy''), (''mc_alt'', ''true_zd''), (''mc_az'', ''true_az'')]"

text \<open>\<open>data[key]\<close> on a DataFrame: a column it does not have is a \<open>KeyError\<close>.\<close>

definition df_getitem :: "table \<Rightarrow> string \<Rightarrow> error + fnum list" where
  "df_getitem t k = (if k \<in> set (cols t) then Inr (col t k) else Inl (KeyError k))"

text \<open>\<open>data.drop(columns=[k], errors='ignore').assign(k = f(row))\<close>.\<close>

definition drop_assign :: "string \<Rightarrow> ((string \<Rightarrow> fnum) \<Rightarrow> fnum) \<Rightarrow> table \<Rightarrow> table" where
  "drop_assign k f t =
     \<lparr>cols = filter (\<lambda>c. c \<noteq> k) (cols t) @ [k], rows = map (\<lambda>r. r(k := f r)) (rows t)\<rparr>"

text \<open>\<open>event_data[name] = data[key].to_numpy()\<close> for the columns the table has.\<close>

definition rename_columns :: "(string \<times> string) list \<Rightarrow> table \<Rightarrow> event_dict \<Rightarrow> event_dict" where
  "rename_columns mapping t event_data =
     fold (\<lambda>(key, name) ed.
             if key \<in> set (cols t) then AList.update name (Some (plain (col t key))) ed else ed)
          mapping event_data"

text \<open>
  The body of the \<open>try\<close> statement. \<open>h5\<close> is the table under the key
  \<open>dl2/event/telescope/parameters/LST_LSTCam\<close>, if the file has it.
\<close>

definition dl2_try :: "astro \<Rightarrow> table option \<Rightarrow> cut option \<Rightarrow> event_dict \<Rightarrow> error + event_dict" where
  "dl2_try astro h5 cuts event_data =
     (case h5 of
        None \<Rightarrow> Inl (KeyError ''dl2/event/telescope/parameters/LST_LSTCam'')
      | Some table \<Rightarrow>
          let data = query cuts table
          in ebind (df_getitem data ''alt_tel'') (\<lambda>_.
               let data = drop_assign ''zd_tel'' (\<lambda>r. fsub (Fin (pi / 2)) (r ''alt_tel'')) data;
                   event_data = rename_columns dl2_data_names_mapping data event_data;
                   is_mc = (''mc_energy'' \<in> set (cols data));
                   is_simulated = (is_mc \<and> ''trigger_time'' \<in> set (cols data))
               in if \<not> is_mc \<or> is_simulated then
                    ebind (df_getitem data ''trigger_time'') (\<lambda>trigger_time.
                      let mjd_values = map (unix_to_mjd astro) trigger_time;
                          event_data = AList.update ''mjd'' (Some (plain mjd_values)) event_data
                      in ebind
                           (if map_of event_data ''pointing_ra'' = Some None then
                              ebind (df_getitem data ''alt_tel'') (\<lambda>alt.
                              ebind (df_getitem data ''az_tel'') (\<lambda>az.
                                let coords = map (\<lambda>(t, a, z). altaz_to_icrs astro t a z)
                                               (zip mjd_values (zip alt az))
                                in Inr (AList.update ''pointing_dec'' (Some (plain (map snd coords)))
                                         (AList.update ''pointing_ra'' (Some (plain (map fst coords)))
                                            event_data))))
                            else Inr event_data)
                           (\<lambda>event_data.
                              if map_of event_data ''event_ra'' = Some None then
                                ebind (df_getitem data ''reco_alt'') (\<lambda>alt.
                                ebind (df_getitem data ''reco_az'') (\<lambda>az.
                                  let coords = map (\<lambda>(t, a, z). altaz_to_icrs astro t a z)
                                                 (zip mjd_values (zip alt az))
                                  in Inr (AList.update ''event_dec'' (Some (plain (map snd coords)))
                                           (AList.update ''event_ra'' (Some (plain (map fst coords)))
                                              event_data))))
                              else Inr event_data))
                  else Inr event_data))"

text \<open>
  The \<open>try\<close> statement with its handler: a \<open>KeyError\<close> resets every field to a zero-length
  array; any other exception passes through.
\<close>

definition dl2_read :: "astro \<Rightarrow> table option \<Rightarrow> cut option \<Rightarrow> error + event_dict" where
  "dl2_read astro h5 cuts =
     (let event_data = map (\<lambda>(key, name). (name, None)) dl2_data_names_mapping
      in (case dl2_try astro h5 cuts event_data of
            Inl (KeyError _) \<Rightarrow> Inr (map (\<lambda>(key, name). (name, zeros0)) dl2_data_names_mapping)
          | Inl e \<Rightarrow> Inl e
          | Inr event_data \<Rightarrow> Inr event_data))"

text \<open>
  The finite mask over the fields that are not \<open>None\<close>; each of them is filtered
  (\<open>event_data[key][all_finite]\<close>) and then tagged.
\<close>

definition present :: "event_dict \<Rightarrow> column list" where
  "present event_data = concat (map (\<lambda>(key, v). case v of None \<Rightarrow> [] | Some c \<Rightarrow> [c]) event_data)"

definition dl2_finite :: "event_dict \<Rightarrow> error + event_dict" where
  "dl2_finite event_data =
     ebind (np_prod_bool (map (\<lambda>c. map isfinite (vals c)) (present event_data))) (\<lambda>all_finite.
       Inr (map (\<lambda>(key, v). (key, map_option (select_and_tag dl2_data_units all_finite key) v))
              event_data))"

definition LstDl2_load_events ::
  "astro \<Rightarrow> filesystem \<Rightarrow> string \<Rightarrow> cut option \<Rightarrow> error + EventSample" where
  "LstDl2_load_events astro fs file_name cuts =
     (case fs file_name of
        Some (Hdf5File h5) \<Rightarrow>
          ebind (dl2_read astro h5 cuts) (\<lambda>event_data.
          ebind (dl2_finite event_data) (\<lambda>event_data.
            make_sample event_data
              (ebind (getitem event_data ''delta_t'') (\<lambda>d. Inr (d, None)))))
      | _ \<Rightarrow> Inl OSError)"

subsection \<open>LstDl3EventFile.load_events\<close>

definition dl3_data_units :: "(string \<times> units) list" where
  "dl3_data_units =
     [(''event_ra'', u_deg), (''event_dec'', u_deg), (''event_energy'', u_TeV),
      (''pointing_ra'', u_deg), (''pointing_dec'', u_deg), (''pointing_az'', u_deg),
      (''pointing_zd'', u_deg), (''mjd'', u_d), (''delta_t'', u_s), (''gammaness'', u_one)]"

definition dl3_data_names_mapping :: "(string \<times> string) list" where
  "dl3_data_names_mapping =
     [(''EVENT_ID'', ''daq_event_number''), (''RA'', ''event_ra''), (''DEC'', ''event_dec''),
      (''GAMMANESS'', ''gammaness''), (''ENERGY'', ''event_energy''), (''TIME'', ''mjd''),
      (''AZ_PNT'', ''pointing_az''), (''ZD_PNT'', ''pointing_zd''),
      (''RA_PNT'', ''pointing_ra''), (''DEC_PNT'', ''pointing_dec'')]"

text \<open>
  The \<open>try\<close> statement of the FITS loader, whose handler only prints. The result is what
  the names \<open>evt_head\<close> and \<open>event_data\<close> are bound to after it: \<open>None\<close> for a name that
  was never assigned. \<open>hdu\<close> is the \<open>EVENTS\<close> extension, if the file has it.
\<close>

definition dl3_try :: "astro \<Rightarrow> fits_hdu option \<Rightarrow> fits_hdu option \<times> event_dict option" where
  "dl3_try astro hdu =
     (case hdu of
        None \<Rightarrow> (None, None)
      | Some events \<Rightarrow>
          let evt_head = header events;
              evt_data = data events;
              event_data = rename_columns dl3_data_names_mapping evt_data []
          in (case map_of event_data ''mjd'' of
                Some (Some time) \<Rightarrow>
                  let mjd_values = map (lst_epoch_to_mjd astro) (vals time);
                      event_data = AList.update ''mjd'' (Some (plain mjd_values)) event_data
                  in (case evt_head ''RA_PNT'' of
                        None \<Rightarrow> (Some events, Some event_data)
                      | Some ra_pnt \<Rightarrow>
                          (case evt_head ''DEC_PNT'' of
                             None \<Rightarrow> (Some events, Some event_data)
                           | Some dec_pnt \<Rightarrow>
                               let altaz_pointing =
                                     map (\<lambda>t. icrs_to_altaz astro t ra_pnt dec_pnt) mjd_values;
                                   zd = map (\<lambda>(alt, az). fsub (Fin 90) alt) altaz_pointing;
                                   event_data =
                                     AList.update ''pointing_zd'' (Some (plain zd)) event_data;
                                   event_data =
                                     AList.update ''pointing_az''
                                       (Some (plain (map snd altaz_pointing))) event_data;
                                   event_data =
                                     AList.update ''pointing_ra''
                                       (Some (plain (replicate (length zd) ra_pnt))) event_data;
                                   event_data =
                                     AList.update ''pointing_dec''
                                       (Some (plain (replicate (length zd) dec_pnt))) event_data
                               in (Some events, Some event_data)))
              | _ \<Rightarrow> (Some events, Some event_data)))"

text \<open>
  The loop after the mask, as the source has it: \<open>event_data[key] = item[all_finite]\<close>, and
  for a field of \<open>data_units\<close> then \<open>event_data[key] = item * data_units[key]\<close>, where
  \<open>item\<close> is still the array as it was before the mask.
\<close>

definition dl3_finite :: "event_dict \<Rightarrow> error + event_dict" where
  "dl3_finite event_data =
     ebind (np_prod_bool (map (\<lambda>c. map isfinite (vals c)) (present event_data))) (\<lambda>all_finite.
       Inr (map (\<lambda>(key, item).
                   (key, map_option
                           (\<lambda>c. case map_of dl3_data_units key of
                                   None \<Rightarrow> c\<lparr>vals := masked (vals c) all_finite\<rparr>
                                 | Some u \<Rightarrow> c\<lparr>unit := Some u\<rparr>)
                           item))
              event_data))"

definition LstDl3_load_events ::
  "astro \<Rightarrow> filesystem \<Rightarrow> string \<Rightarrow> cut option \<Rightarrow> error + EventSample" where
  "LstDl3_load_events astro fs file_name cuts =
     (case fs file_name of
        Some (FitsFile input_file) \<Rightarrow>
          (case dl3_try astro input_file of
             (evt_head, None) \<Rightarrow> Inl (UnboundLocalError ''event_data'')
           | (evt_head, Some event_data) \<Rightarrow>
               ebind (dl3_finite event_data) (\<lambda>event_data.
                 make_sample event_data
                   (case evt_head of
                      None \<Rightarrow> Inl (UnboundLocalError ''evt_head'')
                    | Some events \<Rightarrow>
                        (case header events ''LIVETIME'' of
                           None \<Rightarrow> Inl (KeyError ''LIVETIME'')
                         | Some livetime \<Rightarrow> Inr (None, Some (livetime, Some u_s))))))
      | _ \<Rightarrow> Inl OSError)"

section \<open>File names\<close>

text \<open>
  A file name is a Python string; a \<open>char\<close> stands for a code point below 256. The
  character classes are those of \<open>re\<close> on \<open>str\<close> patterns: \<open>\d\<close> is a decimal digit,
  \<open>\w\<close> is an alphanumeric character (\<open>str.isalnum\<close>) or the underscore, \<open>.\<close> is any
  character but the newline.
\<close>

definition is_digit :: "char \<Rightarrow> bool" where
  "is_digit c = (let n = (of_char c :: nat) in 48 \<le> n \<and> n \<le> 57)"

definition is_alnum :: "char \<Rightarrow> bool" where
  "is_alnum c =
     (let n = (of_char c :: nat)
      in (48 \<le> n \<and> n \<le> 57) \<or> (65 \<le> n \<and> n \<le> 90) \<or> (97 \<le> n \<and> n \<le> 122)
         \<or> n = 170 \<or> n = 178 \<or> n = 179 \<or> n = 181 \<or> n = 185 \<or> n = 186
         \<or> (188 \<le> n \<and> n \<le> 190) \<or> (192 \<le> n \<and> n \<le> 214)
         \<or> (216 \<le> n \<and> n \<le> 246) \<or> (248 \<le> n \<and> n \<le> 255))"

definition is_word :: "char \<Rightarrow> bool" where
  "is_word c = (is_alnum c \<or> c = CHR ''_'')"

definition any_char :: "char \<Rightarrow> bool" where
  "any_char c = (c \<noteq> CHR 0x0A)"

definition lit :: "char \<Rightarrow> char \<Rightarrow> bool" where
  "lit a c = (c = a)"

subsection \<open>Regular expressions\<close>

text \<open>
  The patterns of this module are sequences of atoms: a character class taken once, one or
  more times (\<open>+\<close>) or any number of times (\<open>*\<close>), the repetitions greedy. The flag of an
  atom says whether it stands inside the capturing group.
\<close>

datatype quant = Once | Plus | Star

datatype atom = Atom "char \<Rightarrow> bool" quant bool

fun first_some :: "('a \<Rightarrow> 'b option) \<Rightarrow> 'a list \<Rightarrow> 'b option" where
  "first_some f [] = None"
| "first_some f (x # xs) = (case f x of Some y \<Rightarrow> Some y | None \<Rightarrow> first_some f xs)"

text \<open>
  Matching at the start of \<open>s\<close> by backtracking: a repetition first takes as many
  characters as it can, then gives them back one at a time. The result is the text of the
  group and what is left of \<open>s\<close> after the match.
\<close>

fun match_here :: "atom list \<Rightarrow> string \<Rightarrow> (string \<times> string) option" where
  "match_here [] s = Some ([], s)"
| "match_here (Atom cls Once cap # as) s =
     (case s of
        [] \<Rightarrow> None
      | c # cs \<Rightarrow>
          if cls c
          then map_option (\<lambda>(g, rest). (if cap then c # g else g, rest)) (match_here as cs)
          else None)"
| "match_here (Atom cls q cap # as) s =
     (let longest = length (takeWhile cls s);
          least = (if q = Plus then 1 else 0)
      in first_some
           (\<lambda>k. map_option (\<lambda>(g, rest). (if cap then take k s @ g else g, rest))
                  (match_here as (drop k s)))
           (rev [least ..< Suc longest]))"

text \<open>\<open>re.search\<close>: the match at the leftmost position that has one.\<close>

fun re_search :: "atom list \<Rightarrow> string \<Rightarrow> (string \<times> string) option" where
  "re_search p [] = match_here p []"
| "re_search p (c # cs) =
     (case match_here p (c # cs) of Some r \<Rightarrow> Some r | None \<Rightarrow> re_search p cs)"

text \<open>
  \<open>re.findall\<close> for a pattern with one group: the text of the group in every match, the
  matches found from left to right without overlap. The patterns of this module hold
  literal characters, so that a match is never empty and the search goes on in a shorter
  string.
\<close>

function findall :: "atom list \<Rightarrow> string \<Rightarrow> string list" where
  "findall p s =
     (case re_search p s of
        None \<Rightarrow> []
      | Some (g, rest) \<Rightarrow> g # (if length rest < length s then findall p rest else []))"
  by pat_completeness auto
termination
  by (relation "measure (\<lambda>(p, s). length s)") auto

text \<open>\<open>int(text)\<close> for a string of decimal digits.\<close>

definition int_of_digits :: "string \<Rightarrow> int" where
  "int_of_digits ds = foldl (\<lambda>a c. 10 * a + (int (of_char c) - 48)) 0 ds"

definition lits :: "string \<Rightarrow> atom list" where
  "lits s = map (\<lambda>c. Atom (lit c) Once False) s"

text \<open>\<open>'.*\d+_(\d+)_\w_[0-9\w]+\-W[\d\.\+]+\.root'\<close>\<close>

definition magic_pattern :: "atom list" where
  "magic_pattern =
     [Atom any_char Star False, Atom is_digit Plus False] @ lits ''_'' @
     [Atom is_digit Plus True] @ lits ''_'' @ [Atom is_word Once False] @ lits ''_'' @
     [Atom (\<lambda>c. is_digit c \<or> is_word c) Plus False] @ lits ''-W'' @
     [Atom (\<lambda>c. is_digit c \<or> c = CHR ''.'' \<or> c = CHR ''+'') Plus False] @ lits ''.root''"

text \<open>\<open>'.*dl2_LST-1.Run(\d+).h5'\<close>\<close>

definition dl2_pattern :: "atom list" where
  "dl2_pattern =
     [Atom any_char Star False] @ lits ''dl2_LST-1'' @ [Atom any_char Once False] @
     lits ''Run'' @ [Atom is_digit Plus True, Atom any_char Once False] @ lits ''h5''"

text \<open>\<open>'.*dl3_LST-1.Run(\d+).fits.gz'\<close>\<close>

definition dl3_pattern :: "atom list" where
  "dl3_pattern =
     [Atom any_char Star False] @ lits ''dl3_LST-1'' @ [Atom any_char Once False] @
     lits ''Run'' @ [Atom is_digit Plus True, Atom any_char Once False] @ lits ''fits'' @
     [Atom any_char Once False] @ lits ''gz''"

definition get_obs_id :: "atom list \<Rightarrow> string \<Rightarrow> error + int" where
  "get_obs_id pattern file_name =
     (case findall pattern file_name of
        parsed0 # _ \<Rightarrow> Inr (int_of_digits parsed0)
      | [] \<Rightarrow> Inl (RuntimeError (''Can not find observations ID in '' @ file_name)))"

definition MagicRoot_get_obs_id :: "string \<Rightarrow> error + int" where
  "MagicRoot_get_obs_id file_name = get_obs_id magic_pattern file_name"

definition LstDl2_get_obs_id :: "string \<Rightarrow> error + int" where
  "LstDl2_get_obs_id file_name = get_obs_id dl2_pattern file_name"

definition LstDl3_get_obs_id :: "string \<Rightarrow> error + int" where
  "LstDl3_get_obs_id file_name = get_obs_id dl3_pattern file_name"

subsection \<open>is_compatible\<close>

text \<open>\<open>str.rfind\<close> for one character: the last index, or -1.\<close>

definition rfind :: "char \<Rightarrow> string \<Rightarrow> int" where
  "rfind c s =
     (if c \<in> set s then int (length s) - 1 - int (length (takeWhile (\<lambda>x. x \<noteq> c) (rev s)))
      else - 1)"

text \<open>
  The extension of \<open>os.path.splitext\<close> (POSIX): from the last dot of the last path
  component, unless that component has only dots before it.
\<close>

definition splitext_ext :: "string \<Rightarrow> string" where
  "splitext_ext p =
     (let sepIndex = rfind CHR ''/'' p;
          dotIndex = rfind CHR ''.'' p
      in if sepIndex < dotIndex \<and>
            list_ex (\<lambda>c. c \<noteq> CHR ''.'') (take (nat (dotIndex - (sepIndex + 1))) (drop (nat (sepIndex + 1)) p))
         then drop (nat dotIndex) p
         else [])"

text \<open>\<open>str.lower\<close> on code points below 256.\<close>

definition lower_char :: "char \<Rightarrow> char" where
  "lower_char c =
     (let n = (of_char c :: nat)
      in if (65 \<le> n \<and> n \<le> 90) \<or> (192 \<le> n \<and> n \<le> 222 \<and> n \<noteq> 215)
         then char_of (n + 32) else c)"

definition str_lower :: "string \<Rightarrow> string" where
  "str_lower s = map lower_char s"

definition MagicRoot_is_compatible :: "string \<Rightarrow> bool" where
  "MagicRoot_is_compatible file_name = (str_lower (splitext_ext file_name) = ''.root'')"

definition LstDl2_is_compatible :: "string \<Rightarrow> bool" where
  "LstDl2_is_compatible file_name = (str_lower (splitext_ext file_name) = ''.h5'')"

text \<open>\<open>str.split(sep)\<close> for one character.\<close>

fun str_split :: "char \<Rightarrow> string \<Rightarrow> string list" where
  "str_split sep [] = [[]]"
| "str_split sep (c # cs) =
     (if c = sep then [] # str_split sep cs
      else (case str_split sep cs of w # ws \<Rightarrow> (c # w) # ws | [] \<Rightarrow> [[c]]))"

text \<open>
  \<open>Path(file_name).suffixes\<close>: the name is the last component of the path that is neither
  empty nor a single dot; a name ending in a dot has no suffixes; leading dots do not start
  a suffix.
\<close>

definition path_name :: "string \<Rightarrow> string" where
  "path_name p =
     (case rev (filter (\<lambda>part. part \<noteq> [] \<and> part \<noteq> ''.'') (str_split CHR ''/'' p)) of
        [] \<Rightarrow> []
      | name # _ \<Rightarrow> name)"

definition suffixes :: "string \<Rightarrow> string list" where
  "suffixes p =
     (let name = path_name p
      in if name \<noteq> [] \<and> last name = CHR ''.'' then []
         else map (\<lambda>suffix. CHR ''.'' # suffix)
                (tl (str_split CHR ''.'' (dropWhile (\<lambda>c. c = CHR ''.'') name))))"

definition LstDl3_is_compatible :: "string \<Rightarrow> bool" where
  "LstDl3_is_compatible file_name = (''.fits'' \<in> set (suffixes file_name))"

section \<open>Event files and run summaries\<close>

record EventFile =
  ef_file_name :: string
  ef_obs_id :: int
  events :: EventSample

text \<open>
  The three constructors: the identifier is parsed from the name before the events are
  loaded; \<open>cuts\<close> defaults to \<open>None\<close>.
\<close>

definition MagicRootEventFile :: "filesystem \<Rightarrow> string \<Rightarrow> cut option \<Rightarrow> error + EventFile" where
  "MagicRootEventFile fs file_name cuts =
     ebind (MagicRoot_get_obs_id file_name) (\<lambda>obs_id.
     ebind (MagicRoot_load_events fs file_name cuts) (\<lambda>evts.
       Inr \<lparr>ef_file_name = file_name, ef_obs_id = obs_id, events = evts\<rparr>))"

definition LstDl2EventFile ::
  "astro \<Rightarrow> filesystem \<Rightarrow> string \<Rightarrow> cut option \<Rightarrow> error + EventFile" where
  "LstDl2EventFile astro fs file_name cuts =
     ebind (LstDl2_get_obs_id file_name) (\<lambda>obs_id.
     ebind (LstDl2_load_events astro fs file_name cuts) (\<lambda>evts.
       Inr \<lparr>ef_file_name = file_name, ef_obs_id = obs_id, events = evts\<rparr>))"

definition LstDl3EventFile ::
  "astro \<Rightarrow> filesystem \<Rightarrow> string \<Rightarrow> cut option \<Rightarrow> error + EventFile" where
  "LstDl3EventFile astro fs file_name cuts =
     ebind (LstDl3_get_obs_id file_name) (\<lambda>obs_id.
     ebind (LstDl3_load_events astro fs file_name cuts) (\<lambda>evts.
       Inr \<lparr>ef_file_name = file_name, ef_obs_id = obs_id, events = evts\<rparr>))"

text \<open>\<open>EventFile.pointing_az\<close>: \<open>self.events.pointing_az.to(u.deg)\<close>.\<close>

definition EventFile_pointing_az :: "EventFile \<Rightarrow> error + column" where
  "EventFile_pointing_az self =
     (case pointing_az (events self) of
        None \<Rightarrow> Inl AttributeError
      | Some az \<Rightarrow>
          (case unit az of
             None \<Rightarrow> Inl AttributeError
           | Some u \<Rightarrow>
               if dimension_of u = Angle
               then Inr (tagged (map (in_degrees u) (vals az)) u_deg)
               else Inl UnitConversionError))"

text \<open>
  A sky position in the horizontal frame of the observatory: azimuth and altitude in
  degrees, and the time of the frame as MJD.
\<close>

record SkyCoord =
  sc_az :: fnum
  sc_alt :: fnum
  sc_obstime :: fnum

text \<open>
  astropy on a \<open>SkyCoord\<close>: its ICRS coordinates (right ascension and declination, in degrees)
  and the angular separation of two ICRS positions (in degrees), as parameters.
\<close>

record sky =
  icrs :: "SkyCoord \<Rightarrow> fnum \<times> fnum"
  separation :: "fnum \<times> fnum \<Rightarrow> fnum \<times> fnum \<Rightarrow> fnum"

text \<open>IEEE comparison: false when either side is NaN.\<close>

fun flt :: "fnum \<Rightarrow> fnum \<Rightarrow> bool" where
  "flt NaN _ = False"
| "flt _ NaN = False"
| "flt (Fin a) (Fin b) = (a < b)"
| "flt NInf NInf = False"
| "flt NInf _ = True"
| "flt PInf _ = False"
| "flt (Fin a) PInf = True"
| "flt (Fin a) NInf = False"

fun fabs :: "fnum \<Rightarrow> fnum" where
  "fabs (Fin a) = Fin \<bar>a\<bar>"
| "fabs NaN = NaN"
| "fabs _ = PInf"

text \<open>
  \<open>numpy.argmin\<close> and \<open>numpy.argmax\<close> of a non-empty array: the first index of the
  extremum; a NaN counts as the extremum.
\<close>

fun arg_best :: "(fnum \<Rightarrow> fnum \<Rightarrow> bool) \<Rightarrow> fnum list \<Rightarrow> nat \<Rightarrow> fnum \<Rightarrow> nat \<Rightarrow> nat" where
  "arg_best better [] i best best_ind = best_ind"
| "arg_best better (x # xs) i best best_ind =
     (if best = NaN then best_ind
      else if x = NaN \<or> better x best then arg_best better xs (Suc i) x i
      else arg_best better xs (Suc i) best best_ind)"

definition argmin :: "fnum list \<Rightarrow> nat" where
  "argmin a = arg_best flt (tl a) 1 (hd a) 0"

definition argmax :: "fnum list \<Rightarrow> nat" where
  "argmax a = arg_best (\<lambda>x y. flt y x) (tl a) 1 (hd a) 0"

text \<open>\<open>array[i]\<close> for an index that is not negative.\<close>

definition item :: "'a list \<Rightarrow> nat \<Rightarrow> error + 'a" where
  "item a i = (if i < length a then Inr (a ! i) else Inl IndexError)"

text \<open>
  A horizontal \<open>SkyCoord\<close> from an azimuth and an altitude in degrees: astropy wraps the
  azimuth into [0, 360) and refuses an altitude outside [-90, 90].
\<close>

fun wrap360 :: "fnum \<Rightarrow> fnum" where
  "wrap360 (Fin a) = Fin (a - 360 * of_int \<lfloor>a / 360\<rfloor>)"
| "wrap360 _ = NaN"

definition make_SkyCoord :: "fnum \<Rightarrow> fnum \<Rightarrow> fnum \<Rightarrow> error + SkyCoord" where
  "make_SkyCoord az alt obstime =
     (if flt alt (Fin (- 90)) \<or> flt (Fin 90) alt then Inl ValueError
      else Inr \<lparr>sc_az = wrap360 az, sc_alt = alt, sc_obstime = obstime\<rparr>)"

record RunSummary =
  obs_id :: "int option"
  file_name :: "string option"
  tel_pointing_start :: "SkyCoord option"
  tel_pointing_stop :: "SkyCoord option"

text \<open>
  \<open>RunSummary.__init__\<close>: first the loader is chosen by the name of the file
  (\<open>open_event_file\<close>). The four fields are class attributes that start as \<open>None\<close>; all
  four assignments stand inside \<open>if len(events.mjd) != 0\<close>.
\<close>

definition open_event_file :: "astro \<Rightarrow> filesystem \<Rightarrow> string \<Rightarrow> error + EventFile" where
  "open_event_file astro fs fname =
     (if MagicRoot_is_compatible fname then MagicRootEventFile fs fname None
      else if LstDl2_is_compatible fname then LstDl2EventFile astro fs fname None
      else if LstDl3_is_compatible fname then LstDl3EventFile astro fs fname None
      else Inl (RuntimeError (''Unsupported file format for '' @ fname)))"

definition RunSummary_init :: "astro \<Rightarrow> filesystem \<Rightarrow> string \<Rightarrow> error + RunSummary" where
  "RunSummary_init astro fs fname =
     ebind (open_event_file astro fs fname)
       (\<lambda>evts.
          (case mjd (events evts) of
             None \<Rightarrow> Inl TypeError
           | Some m \<Rightarrow>
               if length (vals m) \<noteq> 0 then
                 let i_min = argmin (vals m);
                     i_max = argmax (vals m)
                 in ebind (EventFile_pointing_az evts) (\<lambda>az.
                    ebind (item (vals az) i_min) (\<lambda>az_min.
                    ebind (item (vals az) i_max) (\<lambda>az_max.
                    ebind (pointing_alt (events evts)) (\<lambda>alt.
                    ebind (item (vals alt) i_min) (\<lambda>alt_min.
                    ebind (item (vals alt) i_max) (\<lambda>alt_max.
                    ebind (make_SkyCoord az_min alt_min (vals m ! i_min)) (\<lambda>pstart.
                    ebind (make_SkyCoord az_max alt_max (vals m ! i_max)) (\<lambda>pstop.
                      Inr \<lparr>obs_id = Some (ef_obs_id evts), file_name = Some fname,
                           tel_pointing_start = Some pstart,
                           tel_pointing_stop = Some pstop\<rparr>))))))))
               else
                 Inr \<lparr>obs_id = None, file_name = None,
                      tel_pointing_start = None, tel_pointing_stop = None\<rparr>))"

text \<open>The accessors: an attribute of \<open>None\<close> is an \<open>AttributeError\<close>.\<close>

definition mjd_start :: "RunSummary \<Rightarrow> error + fnum" where
  "mjd_start self =
     (case tel_pointing_start self of None \<Rightarrow> Inl AttributeError | Some p \<Rightarrow> Inr (sc_obstime p))"

definition mjd_stop :: "RunSummary \<Rightarrow> error + fnum" where
  "mjd_stop self =
     (case tel_pointing_stop self of None \<Rightarrow> Inl AttributeError | Some p \<Rightarrow> Inr (sc_obstime p))"

definition obs_duration :: "RunSummary \<Rightarrow> error + fnum" where
  "obs_duration self =
     ebind (mjd_stop self) (\<lambda>stop.
     ebind (mjd_start self) (\<lambda>start.
       Inr (fmul (fsub stop start) (Fin 86400))))"

subsection \<open>to_qtable\<close>

text \<open>The one row of the table that \<open>to_qtable\<close> returns, angles in degrees, duration in seconds.\<close>

record QTable =
  obs_id_col :: "int option"
  mjd_start_col :: fnum
  mjd_stop_col :: fnum
  duration :: fnum
  az_tel_start :: fnum
  az_tel_stop :: fnum
  alt_tel_start :: fnum
  alt_tel_stop :: fnum
  ra_tel :: fnum
  dec_tel :: fnum
  file_name_col :: "string option"

definition attr :: "'a option \<Rightarrow> error + 'a" where
  "attr v = (case v of None \<Rightarrow> Inl AttributeError | Some x \<Rightarrow> Inr x)"

text \<open>
  The entries of the dictionary are evaluated in the order of the source. Both \<open>ra_tel\<close> and
  \<open>dec_tel\<close> are written there as \<open>self.tel_pointing_start.icrs.ra.to('deg')\<close>.
\<close>

definition to_qtable :: "sky \<Rightarrow> RunSummary \<Rightarrow> error + QTable" where
  "to_qtable sky self =
     ebind (mjd_start self) (\<lambda>start.
     ebind (mjd_stop self) (\<lambda>stop.
     ebind (obs_duration self) (\<lambda>dur.
     ebind (attr (tel_pointing_start self)) (\<lambda>pstart.
     ebind (attr (tel_pointing_stop self)) (\<lambda>pstop.
       Inr \<lparr>obs_id_col = obs_id self,
            mjd_start_col = start,
            mjd_stop_col = stop,
            duration = dur,
            az_tel_start = sc_az pstart,
            az_tel_stop = sc_az pstop,
            alt_tel_start = sc_alt pstart,
            alt_tel_stop = sc_alt pstop,
            ra_tel = fst (icrs sky pstart),
            dec_tel = fst (icrs sky pstart),
            file_name_col = file_name self\<rparr>)))))"

subsection \<open>find_run_neighbours\<close>

text \<open>
  The two lambdas. \<open>time_delta\<close> is in days and \<open>pointing_delta\<close> in degrees. The second
  comparison of the first lambda is evaluated only when the first one is false.
\<close>

definition time_filter :: "RunSummary \<Rightarrow> fnum \<Rightarrow> RunSummary \<Rightarrow> error + bool" where
  "time_filter target_run time_delta run =
     ebind (mjd_start run) (\<lambda>run_start.
     ebind (mjd_stop target_run) (\<lambda>target_stop.
       if flt (fabs (fsub run_start target_stop)) time_delta then Inr True
       else
         ebind (mjd_stop run) (\<lambda>run_stop.
         ebind (mjd_start target_run) (\<lambda>target_start.
           Inr (flt (fabs (fsub run_stop target_start)) time_delta)))))"

definition pointing_filter :: "sky \<Rightarrow> RunSummary \<Rightarrow> fnum \<Rightarrow> RunSummary \<Rightarrow> error + bool" where
  "pointing_filter sky target_run pointing_delta run =
     ebind (attr (tel_pointing_start target_run)) (\<lambda>target_pointing.
     ebind (attr (tel_pointing_start run)) (\<lambda>run_pointing.
       Inr (flt (separation sky (icrs sky target_pointing) (icrs sky run_pointing))
                pointing_delta)))"

text \<open>
  \<open>tuple(filter(f2, filter(f1, run_list)))\<close>: the filters are lazy, so each run goes through
  the first lambda and, when it passes, through the second, before the next run is looked
  at; the first exception ends the call.
\<close>

fun filter2 :: "('a \<Rightarrow> error + bool) \<Rightarrow> ('a \<Rightarrow> error + bool) \<Rightarrow> 'a list \<Rightarrow> error + 'a list" where
  "filter2 f1 f2 [] = Inr []"
| "filter2 f1 f2 (x # xs) =
     ebind (f1 x) (\<lambda>keep1.
     ebind (if keep1 then f2 x else Inr False) (\<lambda>keep2.
     ebind (filter2 f1 f2 xs) (\<lambda>ys.
       Inr (if keep2 then x # ys else ys))))"

definition find_run_neighbours ::
  "sky \<Rightarrow> RunSummary \<Rightarrow> RunSummary list \<Rightarrow> fnum \<Rightarrow> fnum \<Rightarrow> error + RunSummary list" where
  "find_run_neighbours sky target_run run_list time_delta pointing_delta =
     filter2 (time_filter target_run time_delta)
             (pointing_filter sky target_run pointing_delta) run_list"

text \<open>The two conditions as the specification words them, for runs whose bounds are set.\<close>

definition start_time :: "RunSummary \<Rightarrow> fnum" where
  "start_time run = sc_obstime (the (tel_pointing_start run))"

definition stop_time :: "RunSummary \<Rightarrow> fnum" where
  "stop_time run = sc_obstime (the (tel_pointing_stop run))"

definition close_in_time :: "RunSummary \<Rightarrow> fnum \<Rightarrow> RunSummary \<Rightarrow> bool" where
  "close_in_time target time_delta candidate =
     (flt (fabs (fsub (start_time candidate) (stop_time target))) time_delta \<or>
      flt (fabs (fsub (stop_time candidate) (start_time target))) time_delta)"

definition close_in_pointing :: "sky \<Rightarrow> RunSummary \<Rightarrow> fnum \<Rightarrow> RunSummary \<Rightarrow> bool" where
  "close_in_pointing sky target pointing_delta candidate =
     flt (separation sky (icrs sky (the (tel_pointing_start target)))
                         (icrs sky (the (tel_pointing_start candidate))))
         pointing_delta"

definition has_bounds :: "RunSummary \<Rightarrow> bool" where
  "has_bounds run = (tel_pointing_start run \<noteq> None \<and> tel_pointing_stop run \<noteq> None)"

text \<open>A dictionary none of whose values is \<open>None\<close>.\<close>

definition all_present :: "event_dict \<Rightarrow> bool" where
  "all_present ed = (\<forall>k v. map_of ed k = Some v \<longrightarrow> v \<noteq> None)"

subsection \<open>What a pattern matches\<close>

text \<open>
  The words of a pattern, with the text of the group: \<open>atoms_match p w g\<close> says that the
  atoms of \<open>p\<close> match the whole of \<open>w\<close>, the flagged atoms matching \<open>g\<close>.
\<close>

fun atoms_match :: "atom list \<Rightarrow> string \<Rightarrow> string \<Rightarrow> bool" where
  "atoms_match [] w g = (w = [] \<and> g = [])"
| "atoms_match (Atom cls Once cap # as) w g =
     (\<exists>c w' g'. w = c # w' \<and> cls c \<and> atoms_match as w' g' \<and> g = (if cap then c # g' else g'))"
| "atoms_match (Atom cls Plus cap # as) w g =
     (\<exists>u w' g'. w = u @ w' \<and> u \<noteq> [] \<and> list_all cls u \<and> atoms_match as w' g' \<and>
                g = (if cap then u @ g' else g'))"
| "atoms_match (Atom cls Star cap # as) w g =
     (\<exists>u w' g'. w = u @ w' \<and> list_all cls u \<and> atoms_match as w' g' \<and>
                g = (if cap then u @ g' else g'))"

text \<open>The pattern matches somewhere in the string, with \<open>g\<close> as the text of its group.\<close>

definition occurs :: "atom list \<Rightarrow> string \<Rightarrow> string \<Rightarrow> bool" where
  "occurs p s g = (\<exists>pre w post. s = pre @ w @ post \<and> atoms_match p w g)"

text \<open>
  The names that the pattern of the ROOT files matches, in words: somewhere in the name
  there are digits, an underscore, the digits \<open>g\<close> of the run identifier, an underscore, one
  word character, an underscore, word characters, \<open>-W\<close>, a run of digits, dots and plus
  signs, and \<open>.root\<close>.
\<close>

definition magic_name :: "string \<Rightarrow> string \<Rightarrow> bool" where
  "magic_name fname g =
     (\<exists>pre a c nm v post.
        fname = pre @ a @ ''_'' @ g @ ''_'' @ [c] @ ''_'' @ nm @ ''-W'' @ v @ ''.root'' @ post \<and>
        a \<noteq> [] \<and> list_all is_digit a \<and>
        g \<noteq> [] \<and> list_all is_digit g \<and>
        is_word c \<and>
        nm \<noteq> [] \<and> list_all is_word nm \<and>
        v \<noteq> [] \<and> list_all (\<lambda>x. is_digit x \<or> x = CHR ''.'' \<or> x = CHR ''+'') v)"

section \<open>Example inputs\<close>

definition bare_sample :: "column option \<Rightarrow> column option \<Rightarrow> EventSample" where
  "bare_sample m d =
     \<lparr>event_ra = None, event_dec = None, event_energy = None, pointing_ra = None,
      pointing_dec = None, pointing_az = None, pointing_zd = None,
      mjd = m, delta_t = d, eff_obs_time = None\<rparr>"

text \<open>Four events and three positive trigger time differences.\<close>

definition four_events :: EventSample where
  "four_events =
     bare_sample (Some (tagged [Fin 3, Fin 0, Fin 6, Fin 1] u_d))
                 (Some (tagged [Fin 1, Fin 3, Fin (- 1), Fin 2] u_s))"

text \<open>One event, whose trigger time difference is positive.\<close>

definition single_event :: EventSample where
  "single_event =
     bare_sample (Some (tagged [Fin 59000] u_d)) (Some (tagged [Fin (1 / 1000)] u_s))"

text \<open>Stand-ins for the functions of astropy, to evaluate the loaders on examples.\<close>

definition example_astro :: astro where
  "example_astro =
     \<lparr>unix_to_mjd = (\<lambda>t. fadd (fdiv t (Fin 86400)) (Fin 40587)),
      lst_epoch_to_mjd = (\<lambda>t. fadd (fdiv t (Fin 86400)) (Fin 58392)),
      altaz_to_icrs = (\<lambda>t alt az. (az, alt)),
      icrs_to_altaz = (\<lambda>t ra dec. (dec, ra))\<rparr>"

definition example_sky :: sky where
  "example_sky =
     \<lparr>icrs = (\<lambda>p. (sc_az p, sc_alt p)),
      separation = (\<lambda>(ra1, dec1) (ra2, dec2). fadd (fabs (fsub ra1 ra2)) (fabs (fsub dec1 dec2)))\<rparr>"

text \<open>
  A FITS file with two events; the energy of the second one is NaN.
\<close>

definition nan_energy_hdu :: fits_hdu where
  "nan_energy_hdu =
     \<lparr>header = [''RA_PNT'' \<mapsto> Fin 83, ''DEC_PNT'' \<mapsto> Fin 22, ''LIVETIME'' \<mapsto> Fin 1200],
      data = \<lparr>cols = [''EVENT_ID'', ''RA'', ''DEC'', ''ENERGY'', ''GAMMANESS'', ''TIME''],
              rows = [(\<lambda>k. Fin 1), (\<lambda>k. if k = ''ENERGY'' then NaN else Fin 2)]\<rparr>\<rparr>"

text \<open>The same file without the pointing in its header.\<close>

definition no_pointing_hdu :: fits_hdu where
  "no_pointing_hdu = nan_energy_hdu\<lparr>header := [''LIVETIME'' \<mapsto> Fin 1200]\<rparr>"

definition run :: "fnum \<Rightarrow> fnum \<Rightarrow> fnum \<Rightarrow> fnum \<Rightarrow> RunSummary" where
  "run t0 t1 az alt =
     \<lparr>obs_id = Some 1, file_name = Some ''run'',
      tel_pointing_start = Some \<lparr>sc_az = az, sc_alt = alt, sc_obstime = t0\<rparr>,
      tel_pointing_stop = Some \<lparr>sc_az = az, sc_alt = alt, sc_obstime = t1\<rparr>\<rparr>"

definition empty_run :: RunSummary where
  "empty_run =
     \<lparr>obs_id = None, file_name = None, tel_pointing_start = None, tel_pointing_stop = None\<rparr>"

text \<open>The columns read from that file, the times already converted to MJD.\<close>

definition nan_energy_columns :: event_dict where
  "nan_energy_columns =
     [(''daq_event_number'', Some (plain [Fin 1, Fin 2])),
      (''event_ra'', Some (plain [Fin 1, Fin 2])),
      (''event_dec'', Some (plain [Fin 1, Fin 2])),
      (''gammaness'', Some (plain [Fin 1, Fin 2])),
      (''event_energy'', Some (plain [Fin 1, NaN])),
      (''mjd'', Some (plain [Fin (1 / 86400 + 58392), Fin (2 / 86400 + 58392)]))]"

definition nan_energy_pointing :: event_dict where
  "nan_energy_pointing =
     [(''pointing_zd'', Some (plain [Fin 68, Fin 68])),
      (''pointing_az'', Some (plain [Fin 83, Fin 83])),
      (''pointing_ra'', Some (plain [Fin 83, Fin 83])),
      (''pointing_dec'', Some (plain [Fin 22, Fin 22]))]"

text \<open>A target run and four candidates.\<close>

definition target_run :: RunSummary where
  "target_run = run (Fin 10) (Fin 11) (Fin 100) (Fin 60)"

definition candidates :: "RunSummary list" where
  "candidates =
     [run (Fin 11) (Fin 12) (Fin 100) (Fin 60), run (Fin 20) (Fin 21) (Fin 100) (Fin 60),
      run (Fin 9) (Fin 10) (Fin 130) (Fin 60), run (Fin 9) (Fin 10) (Fin 101) (Fin 60)]"

text \<open>
  The sample without events that the HDF5 loader builds from zero-length arrays: every field
  a zero-length quantity in the unit of the loader, and no effective time.
\<close>

definition dl2_empty_sample :: EventSample where
  "dl2_empty_sample =
     \<lparr>event_ra = Some (tagged [] u_rad), event_dec = Some (tagged [] u_rad),
      event_energy = Some (tagged [] u_TeV), pointing_ra = Some (tagged [] u_rad),
      pointing_dec = Some (tagged [] u_rad), pointing_az = Some (tagged [] u_rad),
      pointing_zd = Some (tagged [] u_rad), mjd = Some (tagged [] u_d),
      delta_t = Some (tagged [] u_s), eff_obs_time = None\<rparr>"

text \<open>A file system with one HDF5 file, which lacks the table of the events.\<close>

definition corrupted_h5 :: filesystem where
  "corrupted_h5 = [''/data/dl2_LST-1.Run02008.h5'' \<mapsto> Hdf5File None]"

text \<open>The sample that the FITS loader returns for that file.\<close>

definition nan_energy_sample :: EventSample where
  "nan_energy_sample =
     \<lparr>event_ra = Some (tagged [Fin 1, Fin 2] u_deg),
      event_dec = Some (tagged [Fin 1, Fin 2] u_deg),
      event_energy = Some (tagged [Fin 1, NaN] u_TeV),
      pointing_ra = Some (tagged [Fin 83, Fin 83] u_deg),
      pointing_dec = Some (tagged [Fin 22, Fin 22] u_deg),
      pointing_az = Some (tagged [Fin 83, Fin 83] u_deg),
      pointing_zd = Some (tagged [Fin 68, Fin 68] u_deg),
      mjd = Some (tagged [Fin (1 / 86400 + 58392), Fin (2 / 86400 + 58392)] u_d),
      delta_t = None,
      eff_obs_time = Some (Fin 1200, Some u_s)\<rparr>"

section \<open>Exceptions\<close>

lemma ebind_simps [simp]: "ebind (Inl e) f = Inl e" "ebind (Inr x) f = f x"
  by (simp_all add: ebind_def)

lemma ebind_Inr: "ebind m f = Inr y \<Longrightarrow> \<exists>x. m = Inr x \<and> f x = Inr y"
  by (cases m) simp_all

section \<open>The effective observation time\<close>

lemma np_diff_eq: "np_diff xs = consecutive_differences xs"
  by (rule nth_equalityI) (auto simp: np_diff_def consecutive_differences_def nth_tl)

lemma masked_map: "masked xs (map P xs) = filter P xs"
  by (induction xs) (auto simp: masked_def)

lemma fin_val_filter:
  "map fin_val (filter (\<lambda>v. 0 < fin_val v) vs) = filter (\<lambda>x. 0 < x) (map fin_val vs)"
  by (induction vs) auto

lemma Min_le_mean:
  fixes xs :: "real list"
  assumes "xs \<noteq> []"
  shows "Min (set xs) \<le> sum_list xs / real (length xs)"
proof -
  have "real (length xs) * Min (set xs) \<le> sum_list xs"
    using sum_list_mono [of xs "\<lambda>_. Min (set xs)" "\<lambda>x. x"]
    by (simp add: sum_list_triv)
  moreover have "0 < real (length xs)" using assms by simp
  ultimately show ?thesis
    by (simp add: pos_le_divide_eq mult.commute)
qed

text \<open>
  With at least two finite event times and a positive trigger time difference the method
  returns the effective time of the specification, in the unit of \<open>mjd\<close> (dimensionless when
  \<open>mjd\<close> has no unit).
\<close>

lemma calc_eff_obs_time_spec:
  assumes "mjd self = Some m" and "delta_t self = Some d"
    and "unit d = Some u" and "dimension_of u = Time"
    and "list_all isfinite (vals m)" and "list_all isfinite (vals d)"
    and "2 \<le> length (vals m)"
    and "list_ex (\<lambda>v. 0 < fin_val v) (vals d)"
  shows "calc_eff_obs_time self =
         Inr (Some (spec_t_eff (map fin_val (vals m)) (map fin_val (vals d)),
                    result_unit (unit m)))"
proof -
  let ?ms = "map fin_val (vals m)"
  let ?ds = "map fin_val (vals d)"
  have len: "length (np_diff (sort ?ms)) \<noteq> 0"
    using assms(7) by (simp add: np_diff_def)
  have pm: "positive_mask d = Inr (map (\<lambda>v. 0 < fin_val v) (vals d))"
    using assms(3,4) by (simp add: positive_mask_def)
  have pos: "map fin_val (masked (vals d) (map (\<lambda>v. 0 < fin_val v) (vals d))) = positive_entries ?ds"
    by (simp add: masked_map fin_val_filter positive_entries_def)
  have ne: "positive_entries ?ds \<noteq> []"
    using assms(8) by (auto simp: positive_entries_def list_ex_iff filter_empty_conv)
  show ?thesis
    using assms(1,2,5,6) len pm ne
    by (simp add: calc_eff_obs_time_def Let_def pos np_diff_eq spec_t_eff_def spec_t_elapsed_def
        spec_rate_def spec_dead_time_def np_amin_def np_mean_def)
qed

text \<open>
  The effective time of the specification in real arithmetic. When all positive trigger time
  differences are equal, their mean is the dead time, the rate is infinite and the effective
  time is zero.
\<close>

lemma spec_t_eff_closed:
  assumes "positive_entries ds \<noteq> []"
  shows "spec_t_eff ms ds =
     (let p = positive_entries ds;
          dead_time = Min (set p);
          mean = sum_list p / real (length p)
      in if mean = dead_time then Fin 0
         else Fin (spec_t_elapsed ms / (1 + 1 / (mean - dead_time) * dead_time)))"
proof -
  let ?p = "positive_entries ds"
  let ?dead = "Min (set ?p)"
  let ?mean = "sum_list ?p / real (length ?p)"
  have "?dead \<in> set ?p" using assms by simp
  then have dpos: "0 < ?dead" by (simp add: positive_entries_def)
  have le: "?dead \<le> ?mean" using assms by (rule Min_le_mean)
  show ?thesis
  proof (cases "?mean = ?dead")
    case True
    then show ?thesis using dpos
      by (simp add: spec_t_eff_def spec_rate_def spec_dead_time_def Let_def)
  next
    case False
    then have lt: "0 < ?mean - ?dead" using le by simp
    then have "0 < 1 / (?mean - ?dead) * ?dead" using dpos by simp
    then have "1 + 1 / (?mean - ?dead) * ?dead \<noteq> 0" by linarith
    then show ?thesis using False
      by (simp add: spec_t_eff_def spec_rate_def spec_dead_time_def Let_def)
  qed
qed

text \<open>
  Claim C6. For a sample with at least two events and at least one positive \<open>delta_t\<close>
  (finite values, \<open>delta_t\<close> a time quantity), \<open>calc_eff_obs_time\<close> returns
  \<open>t_elapsed / (1 + rate * dead_time)\<close>, where \<open>t_elapsed\<close> is the sum of the consecutive
  differences of the sorted event times that are below their 99.99th percentile,
  \<open>dead_time\<close> is the least positive \<open>delta_t\<close> and \<open>rate\<close> is
  \<open>1 / (mean of the positive delta_t - dead_time)\<close>.
\<close>

theorem calc_eff_obs_time_formula:
  assumes "mjd self = Some m" and "delta_t self = Some d"
    and "unit d = Some u" and "dimension_of u = Time"
    and "list_all isfinite (vals m)" and "list_all isfinite (vals d)"
    and "2 \<le> length (vals m)"
    and "list_ex (\<lambda>v. 0 < fin_val v) (vals d)"
  shows "calc_eff_obs_time self =
           Inr (Some (spec_t_eff (map fin_val (vals m)) (map fin_val (vals d)),
                    result_unit (unit m)))
         \<and> spec_t_eff (map fin_val (vals m)) (map fin_val (vals d)) =
           (let p = positive_entries (map fin_val (vals d));
                dead_time = Min (set p);
                mean = sum_list p / real (length p);
                t_elapsed = spec_t_elapsed (map fin_val (vals m))
            in if mean = dead_time then Fin 0
               else Fin (t_elapsed / (1 + 1 / (mean - dead_time) * dead_time)))"
proof -
  have "positive_entries (map fin_val (vals d)) \<noteq> []"
    using assms(8) by (auto simp: positive_entries_def list_ex_iff filter_empty_conv)
  then show ?thesis
    using calc_eff_obs_time_spec [OF assms] spec_t_eff_closed [of "map fin_val (vals d)"]
    by (simp add: Let_def)
qed

theorem calc_eff_obs_time_formula_witness:
  "calc_eff_obs_time four_events = Inr (Some (Fin (3 / 2), Some u_d))"
proof -
  have "calc_eff_obs_time four_events =
          Inr (Some (spec_t_eff [3, 0, 6, 1] [1, 3, - 1, 2], Some u_d))"
    using calc_eff_obs_time_formula
            [of four_events "tagged [Fin 3, Fin 0, Fin 6, Fin 1] u_d"
                "tagged [Fin 1, Fin 3, Fin (- 1), Fin 2] u_s" u_s]
    by (simp add: four_events_def bare_sample_def tagged_def result_unit_def)
  moreover have "spec_t_eff [3, 0, 6, 1] [1, 3, - 1, 2] = Fin (3 / 2)"
    by (simp add: spec_t_eff_def spec_t_elapsed_def spec_rate_def spec_dead_time_def
        positive_entries_def consecutive_differences_def np_percentile_def Let_def upt_rec
        numeral_eq_Suc)
  ultimately show ?thesis by simp
qed

text \<open>Without a positive \<open>delta_t\<close> the method returns \<open>None\<close>, whatever the number of events.\<close>

lemma calc_eff_obs_time_no_positive:
  assumes "mjd self = Some m" and "delta_t self = Some d"
    and "unit d = Some u" and "dimension_of u = Time"
    and "list_all isfinite (vals m)" and "list_all isfinite (vals d)"
    and "\<not> list_ex (\<lambda>v. 0 < fin_val v) (vals d)"
  shows "calc_eff_obs_time self = Inr None"
proof -
  have pm: "positive_mask d = Inr (map (\<lambda>v. 0 < fin_val v) (vals d))"
    using assms(3,4) by (simp add: positive_mask_def)
  have "filter (\<lambda>v. 0 < fin_val v) (vals d) = []"
    using assms(7) by (auto simp: list_ex_iff filter_empty_conv)
  then show ?thesis
    using assms(1,2,5,6) pm
    by (simp add: calc_eff_obs_time_def Let_def masked_map)
qed

text \<open>
  With fewer than two events and a positive \<open>delta_t\<close> the method divides \<open>None\<close> by a
  quantity.
\<close>

lemma calc_eff_obs_time_few_events:
  assumes "mjd self = Some m" and "delta_t self = Some d"
    and "unit d = Some u" and "dimension_of u = Time"
    and "list_all isfinite (vals m)" and "list_all isfinite (vals d)"
    and "length (vals m) \<le> 1"
    and "list_ex (\<lambda>v. 0 < fin_val v) (vals d)"
  shows "calc_eff_obs_time self = Inl TypeError"
proof -
  have len: "length (np_diff (sort (map fin_val (vals m)))) = 0"
    using assms(7) by (simp add: np_diff_def)
  have pm: "positive_mask d = Inr (map (\<lambda>v. 0 < fin_val v) (vals d))"
    using assms(3,4) by (simp add: positive_mask_def)
  have "filter (\<lambda>v. 0 < fin_val v) (vals d) \<noteq> []"
    using assms(8) by (auto simp: list_ex_iff filter_empty_conv)
  then show ?thesis
    using assms(1,2,5,6) pm len
    by (simp add: calc_eff_obs_time_def Let_def masked_map)
qed

text \<open>
  Claim C3. The claim asks for the undefined value, and no exception, for a sample with one
  event whose \<open>delta_t\<close> is positive. There the method, and with it the constructor of
  \<open>EventSample\<close>, raises \<open>TypeError\<close>.
\<close>

theorem calc_eff_obs_time_single_event:
  "calc_eff_obs_time single_event = Inl TypeError \<and>
   EventSample_init None None None None None None None
     (Some (tagged [Fin 59000] u_d)) (Some (tagged [Fin (1 / 1000)] u_s)) None = Inl TypeError"
  by (simp add: EventSample_init_def calc_eff_obs_time_def single_event_def bare_sample_def
      tagged_def np_diff_def positive_mask_def masked_def Let_def)

section \<open>The table row of a run\<close>

text \<open>
  Claim C4. For a run with both pointing bounds, \<open>to_qtable\<close> returns the row below: each
  field is what the claim says, except \<open>dec_tel\<close>, which holds the right ascension of
  \<open>tel_pointing_start\<close> where the claim asks for its declination.
\<close>

theorem to_qtable_row:
  "to_qtable sky \<lparr>obs_id = i, file_name = f,
                  tel_pointing_start = Some p, tel_pointing_stop = Some q\<rparr> =
     Inr \<lparr>obs_id_col = i,
          mjd_start_col = sc_obstime p,
          mjd_stop_col = sc_obstime q,
          duration = fmul (fsub (sc_obstime q) (sc_obstime p)) (Fin 86400),
          az_tel_start = sc_az p,
          az_tel_stop = sc_az q,
          alt_tel_start = sc_alt p,
          alt_tel_stop = sc_alt q,
          ra_tel = fst (icrs sky p),
          dec_tel = fst (icrs sky p),
          file_name_col = f\<rparr>"
  by (simp add: to_qtable_def mjd_start_def mjd_stop_def obs_duration_def attr_def)

section \<open>The neighbours of a run\<close>

lemma filter2_bounds:
  assumes "\<And>x. x \<in> set xs \<Longrightarrow> f1 x = Inr (p1 x)"
    and "\<And>x. x \<in> set xs \<Longrightarrow> f2 x = Inr (p2 x)"
  shows "filter2 f1 f2 xs = Inr (filter (\<lambda>x. p1 x \<and> p2 x) xs)"
  using assms by (induction xs) auto

lemma time_filter_bounds:
  "has_bounds target \<Longrightarrow> has_bounds c \<Longrightarrow>
   time_filter target td c = Inr (close_in_time target td c)"
  by (auto simp: has_bounds_def time_filter_def close_in_time_def mjd_start_def mjd_stop_def
      start_time_def stop_time_def)

lemma pointing_filter_bounds:
  "has_bounds target \<Longrightarrow> has_bounds c \<Longrightarrow>
   pointing_filter sky target pd c = Inr (close_in_pointing sky target pd c)"
  by (auto simp: has_bounds_def pointing_filter_def close_in_pointing_def attr_def)

text \<open>A run without bounds among the candidates ends the search with \<open>AttributeError\<close>.\<close>

lemma find_run_neighbours_empty_run:
  "find_run_neighbours sky target (empty_run # run_list) time_delta pointing_delta =
     Inl AttributeError"
  by (simp add: find_run_neighbours_def time_filter_def mjd_start_def empty_run_def)

text \<open>
  Claim C5, as the source has it. For a target run and candidates whose time and pointing
  bounds are set, \<open>find_run_neighbours\<close> returns exactly the candidates that are close in
  time (either comparison) and close in pointing, in the order of the input; the result is a
  subsequence of the candidates, so it is not longer than they are.
\<close>

theorem find_run_neighbours_filter:
  assumes "has_bounds target" and "list_all has_bounds run_list"
  shows "\<exists>neighbours.
           find_run_neighbours sky target run_list time_delta pointing_delta = Inr neighbours \<and>
           neighbours = filter (\<lambda>c. close_in_time target time_delta c \<and>
                                     close_in_pointing sky target pointing_delta c) run_list \<and>
           subseq neighbours run_list \<and>
           length neighbours \<le> length run_list"
proof -
  have "find_run_neighbours sky target run_list time_delta pointing_delta =
        Inr (filter (\<lambda>c. close_in_time target time_delta c \<and>
                          close_in_pointing sky target pointing_delta c) run_list)"
    unfolding find_run_neighbours_def
    using assms
    by (intro filter2_bounds) (auto simp: list_all_iff time_filter_bounds pointing_filter_bounds)
  then show ?thesis by simp
qed

theorem find_run_neighbours_filter_witness:
  "find_run_neighbours example_sky target_run candidates (Fin (1 / 2)) (Fin 2) =
     Inr [run (Fin 11) (Fin 12) (Fin 100) (Fin 60), run (Fin 9) (Fin 10) (Fin 101) (Fin 60)]"
  using find_run_neighbours_filter [of target_run candidates example_sky "Fin (1 / 2)" "Fin 2"]
  by (simp add: target_run_def candidates_def has_bounds_def run_def close_in_time_def
      close_in_pointing_def example_sky_def start_time_def stop_time_def fsub_def)

text \<open>
  The claim as it was stated, for every target run and every candidate list, fails on the
  runs that \<open>RunSummary\<close> builds from a file without events: with such a run after the
  four candidates, or as the target, the call raises \<open>AttributeError\<close> and returns nothing.
\<close>

theorem find_run_neighbours_filter_counterexample:
  "find_run_neighbours example_sky target_run (candidates @ [empty_run]) (Fin (1 / 2)) (Fin 2) =
     Inl AttributeError \<and>
   find_run_neighbours example_sky empty_run candidates (Fin (1 / 2)) (Fin 2) =
     Inl AttributeError"
  by (simp add: find_run_neighbours_def time_filter_def pointing_filter_def mjd_start_def
      mjd_stop_def attr_def target_run_def candidates_def run_def empty_run_def example_sky_def
      fsub_def)

section \<open>The FITS loader\<close>

lemma nan_energy_rename:
  "rename_columns dl3_data_names_mapping (data nan_energy_hdu) [] =
     [(''daq_event_number'', Some (plain [Fin 1, Fin 2])),
      (''event_ra'', Some (plain [Fin 1, Fin 2])),
      (''event_dec'', Some (plain [Fin 1, Fin 2])),
      (''gammaness'', Some (plain [Fin 1, Fin 2])),
      (''event_energy'', Some (plain [Fin 1, NaN])),
      (''mjd'', Some (plain [Fin 1, Fin 2]))]"
  by (simp add: rename_columns_def dl3_data_names_mapping_def nan_energy_hdu_def col_def)

lemma no_pointing_rename:
  "rename_columns dl3_data_names_mapping (data no_pointing_hdu) [] =
     rename_columns dl3_data_names_mapping (data nan_energy_hdu) []"
  by (simp add: no_pointing_hdu_def)

lemma nan_energy_try:
  "dl3_try example_astro (Some nan_energy_hdu) =
     (Some nan_energy_hdu, Some (nan_energy_columns @ nan_energy_pointing))"
  unfolding dl3_try_def option.case Let_def nan_energy_rename
  by (simp add: nan_energy_hdu_def example_astro_def plain_def fsub_def nan_energy_columns_def
      nan_energy_pointing_def)

lemma no_pointing_try:
  "dl3_try example_astro (Some no_pointing_hdu) = (Some no_pointing_hdu, Some nan_energy_columns)"
  unfolding dl3_try_def option.case Let_def no_pointing_rename nan_energy_rename
  by (simp add: no_pointing_hdu_def nan_energy_hdu_def example_astro_def plain_def
      nan_energy_columns_def)

text \<open>
  The mask drops the second event from the one field without unit; the fields with a unit
  keep both events.
\<close>

lemma nan_energy_finite:
  "dl3_finite (nan_energy_columns @ nan_energy_pointing) =
     Inr [(''daq_event_number'', Some (plain [Fin 1])),
          (''event_ra'', Some (tagged [Fin 1, Fin 2] u_deg)),
          (''event_dec'', Some (tagged [Fin 1, Fin 2] u_deg)),
          (''gammaness'', Some (tagged [Fin 1, Fin 2] u_one)),
          (''event_energy'', Some (tagged [Fin 1, NaN] u_TeV)),
          (''mjd'', Some (tagged [Fin (1 / 86400 + 58392), Fin (2 / 86400 + 58392)] u_d)),
          (''pointing_zd'', Some (tagged [Fin 68, Fin 68] u_deg)),
          (''pointing_az'', Some (tagged [Fin 83, Fin 83] u_deg)),
          (''pointing_ra'', Some (tagged [Fin 83, Fin 83] u_deg)),
          (''pointing_dec'', Some (tagged [Fin 22, Fin 22] u_deg))]"
  by (simp add: dl3_finite_def present_def np_prod_bool_def nan_energy_columns_def
      nan_energy_pointing_def plain_def tagged_def masked_def dl3_data_units_def)

lemma no_pointing_finite:
  "dl3_finite nan_energy_columns =
     Inr [(''daq_event_number'', Some (plain [Fin 1])),
          (''event_ra'', Some (tagged [Fin 1, Fin 2] u_deg)),
          (''event_dec'', Some (tagged [Fin 1, Fin 2] u_deg)),
          (''gammaness'', Some (tagged [Fin 1, Fin 2] u_one)),
          (''event_energy'', Some (tagged [Fin 1, NaN] u_TeV)),
          (''mjd'', Some (tagged [Fin (1 / 86400 + 58392), Fin (2 / 86400 + 58392)] u_d))]"
  by (simp add: dl3_finite_def present_def np_prod_bool_def nan_energy_columns_def plain_def
      tagged_def masked_def dl3_data_units_def)

lemma nan_energy_load:
  "LstDl3_load_events example_astro [''f'' \<mapsto> FitsFile (Some nan_energy_hdu)] ''f'' None =
     Inr nan_energy_sample"
proof -
  have "header nan_energy_hdu ''LIVETIME'' = Some (Fin 1200)"
    by (simp add: nan_energy_hdu_def)
  then show ?thesis
    by (simp add: LstDl3_load_events_def nan_energy_try nan_energy_finite make_sample_def
        getitem_def EventSample_init_def nan_energy_sample_def)
qed

text \<open>
  Claim C1. The claim asks that no returned column holds a non-finite value and that only
  the rows finite in every column are kept. For a FITS file of two events, the second with
  a NaN energy, the loader returns a sample that keeps both events in every column, the NaN
  included.
\<close>

theorem LstDl3_load_events_keeps_nan:
  "LstDl3_load_events example_astro [''f'' \<mapsto> FitsFile (Some nan_energy_hdu)] ''f'' None =
     Inr \<lparr>event_ra = Some (tagged [Fin 1, Fin 2] u_deg),
          event_dec = Some (tagged [Fin 1, Fin 2] u_deg),
          event_energy = Some (tagged [Fin 1, NaN] u_TeV),
          pointing_ra = Some (tagged [Fin 83, Fin 83] u_deg),
          pointing_dec = Some (tagged [Fin 22, Fin 22] u_deg),
          pointing_az = Some (tagged [Fin 83, Fin 83] u_deg),
          pointing_zd = Some (tagged [Fin 68, Fin 68] u_deg),
          mjd = Some (tagged [Fin (1 / 86400 + 58392), Fin (2 / 86400 + 58392)] u_d),
          delta_t = None,
          eff_obs_time = Some (Fin 1200, Some u_s)\<rparr>"
  by (simp add: nan_energy_load nan_energy_sample_def)

text \<open>
  Claim C2. The claim asks that the loader does not raise when the \<open>EVENTS\<close> extension or
  a header key is missing. Without the extension, the name \<open>event_data\<close> is never bound
  and the loader raises \<open>UnboundLocalError\<close> (whatever else the file system holds); without
  the pointing keys of the header, the field \<open>pointing_ra\<close> is never filled and the loader
  raises \<open>KeyError\<close>.
\<close>

theorem LstDl3_load_events_missing_raises:
  "LstDl3_load_events astro (fs(fname := Some (FitsFile None))) fname cuts =
     Inl (UnboundLocalError ''event_data'') \<and>
   LstDl3_load_events example_astro [''f'' \<mapsto> FitsFile (Some no_pointing_hdu)] ''f'' None =
     Inl (KeyError ''pointing_ra'')"
proof
  show "LstDl3_load_events astro (fs(fname := Some (FitsFile None))) fname cuts =
          Inl (UnboundLocalError ''event_data'')"
    by (simp add: LstDl3_load_events_def dl3_try_def)
  show "LstDl3_load_events example_astro [''f'' \<mapsto> FitsFile (Some no_pointing_hdu)] ''f'' None =
          Inl (KeyError ''pointing_ra'')"
    by (simp add: LstDl3_load_events_def no_pointing_try no_pointing_finite make_sample_def
        getitem_def)
qed

section \<open>A file without its table, a run without events\<close>

lemma dl2_read_missing:
  "dl2_read astro None cuts = Inr (map (\<lambda>(key, name). (name, zeros0)) dl2_data_names_mapping)"
  by (simp add: dl2_read_def dl2_try_def)

lemma dl2_finite_zeros:
  "dl2_finite (map (\<lambda>(key, name). (name, zeros0)) dl2_data_names_mapping) =
     Inr [(''trigger_pattern'', Some (plain [])), (''daq_event_number'', Some (plain [])),
          (''event_ra'', Some (tagged [] u_rad)), (''event_dec'', Some (tagged [] u_rad)),
          (''gammaness'', Some (tagged [] u_one)), (''event_energy'', Some (tagged [] u_TeV)),
          (''mjd'', Some (tagged [] u_d)), (''delta_t'', Some (tagged [] u_s)),
          (''pointing_az'', Some (tagged [] u_rad)), (''pointing_zd'', Some (tagged [] u_rad)),
          (''pointing_ra'', Some (tagged [] u_rad)), (''pointing_dec'', Some (tagged [] u_rad)),
          (''true_energy'', Some (plain [])), (''true_zd'', Some (plain [])),
          (''true_az'', Some (plain []))]"
  by (simp add: dl2_finite_def dl2_data_names_mapping_def zeros0_def present_def np_prod_bool_def
      select_and_tag_def masked_def dl2_data_units_def plain_def tagged_def)

lemma calc_eff_obs_time_empty:
  "mjd self = Some (tagged [] u_d) \<Longrightarrow> delta_t self = Some (tagged [] u_s) \<Longrightarrow>
   calc_eff_obs_time self = Inr None"
  by (simp add: calc_eff_obs_time_def tagged_def np_diff_def positive_mask_def masked_def)

lemma LstDl2_load_events_missing:
  assumes "fs fname = Some (Hdf5File None)"
  shows "LstDl2_load_events astro fs fname cuts = Inr dl2_empty_sample"
  using assms
  by (simp add: LstDl2_load_events_def dl2_read_missing dl2_finite_zeros make_sample_def
      getitem_def EventSample_init_def calc_eff_obs_time_empty dl2_empty_sample_def)

lemma dl2_not_magic: "LstDl2_is_compatible fname \<Longrightarrow> \<not> MagicRoot_is_compatible fname"
  by (simp add: LstDl2_is_compatible_def MagicRoot_is_compatible_def)

lemma RunSummary_init_no_events:
  assumes "open_event_file astro fs fname = Inr evts"
    and "mjd (events evts) = Some m" and "vals m = []"
  shows "RunSummary_init astro fs fname =
         Inr \<lparr>obs_id = None, file_name = None,
              tel_pointing_start = None, tel_pointing_stop = None\<rparr>"
  using assms by (simp add: RunSummary_init_def)

lemma run02008_name:
  "LstDl2_is_compatible ''/data/dl2_LST-1.Run02008.h5''"
  "LstDl2_get_obs_id ''/data/dl2_LST-1.Run02008.h5'' = Inr 2008"
  by code_simp+

lemma corrupted_h5_open:
  "open_event_file astro corrupted_h5 ''/data/dl2_LST-1.Run02008.h5'' =
     Inr \<lparr>ef_file_name = ''/data/dl2_LST-1.Run02008.h5'', ef_obs_id = 2008,
          events = dl2_empty_sample\<rparr>"
  using run02008_name dl2_not_magic [of "''/data/dl2_LST-1.Run02008.h5''"]
    LstDl2_load_events_missing [of corrupted_h5 "''/data/dl2_LST-1.Run02008.h5''" astro None]
  by (simp add: open_event_file_def LstDl2EventFile_def corrupted_h5_def)

text \<open>
  Claim C7. For an HDF5 file without the table of the events, \<open>load_events\<close> returns a
  sample whose fields are all zero-length arrays; and when the name of the file is one of
  the HDF5 loader (its extension and its run identifier), \<open>RunSummary\<close> is built without
  an exception and its time and pointing bounds stay unset.
\<close>

theorem LstDl2_missing_table:
  assumes "fs fname = Some (Hdf5File None)"
  shows "LstDl2_load_events astro fs fname cuts = Inr dl2_empty_sample \<and>
         (LstDl2_is_compatible fname \<and> LstDl2_get_obs_id fname = Inr n \<longrightarrow>
          (\<exists>summary. RunSummary_init astro fs fname = Inr summary \<and>
                     tel_pointing_start summary = None \<and> tel_pointing_stop summary = None \<and>
                     mjd_start summary = Inl AttributeError \<and>
                     mjd_stop summary = Inl AttributeError))"
proof (intro conjI impI)
  show load: "LstDl2_load_events astro fs fname cuts = Inr dl2_empty_sample" for cuts
    using assms by (rule LstDl2_load_events_missing)
  assume name: "LstDl2_is_compatible fname \<and> LstDl2_get_obs_id fname = Inr n"
  then have "open_event_file astro fs fname =
             Inr \<lparr>ef_file_name = fname, ef_obs_id = n, events = dl2_empty_sample\<rparr>"
    using load [of None] dl2_not_magic [of fname]
    by (simp add: open_event_file_def LstDl2EventFile_def)
  then have "RunSummary_init astro fs fname =
            Inr \<lparr>obs_id = None, file_name = None,
                 tel_pointing_start = None, tel_pointing_stop = None\<rparr>"
    by (rule RunSummary_init_no_events [where m = "tagged [] u_d"])
       (simp_all add: dl2_empty_sample_def tagged_def)
  then show "\<exists>summary. RunSummary_init astro fs fname = Inr summary \<and>
                     tel_pointing_start summary = None \<and> tel_pointing_stop summary = None \<and>
                     mjd_start summary = Inl AttributeError \<and>
                     mjd_stop summary = Inl AttributeError"
    by (simp add: mjd_start_def mjd_stop_def)
qed

theorem LstDl2_missing_table_witness:
  "LstDl2_load_events example_astro corrupted_h5 ''/data/dl2_LST-1.Run02008.h5'' None =
     Inr dl2_empty_sample \<and>
   (\<exists>summary. RunSummary_init example_astro corrupted_h5 ''/data/dl2_LST-1.Run02008.h5'' =
                Inr summary \<and>
              tel_pointing_start summary = None \<and> tel_pointing_stop summary = None \<and>
              mjd_start summary = Inl AttributeError \<and> mjd_stop summary = Inl AttributeError)"
  using LstDl2_missing_table
          [of corrupted_h5 "''/data/dl2_LST-1.Run02008.h5''" example_astro None 2008]
        run02008_name
  by (simp add: corrupted_h5_def)

lemma open_event_file_keeps:
  assumes "open_event_file astro fs fname = Inr evts"
  shows "ef_file_name evts = fname \<and>
         (MagicRoot_get_obs_id fname = Inr (ef_obs_id evts) \<or>
          LstDl2_get_obs_id fname = Inr (ef_obs_id evts) \<or>
          LstDl3_get_obs_id fname = Inr (ef_obs_id evts))"
  using assms
  by (auto simp: open_event_file_def MagicRootEventFile_def LstDl2EventFile_def
      LstDl3EventFile_def dest!: ebind_Inr split: if_splits)

text \<open>
  Claim C10, as the source has it. For a file whose sample has no events, \<open>RunSummary\<close>
  is built without an exception and all four fields stay unset: the pointing bounds, and
  with them \<open>obs_id\<close> and \<open>file_name\<close>. The path and the parsed run identifier are held
  by the event file only.
\<close>

theorem RunSummary_init_zero_events:
  assumes "open_event_file astro fs fname = Inr evts"
    and "mjd (events evts) = Some m" and "vals m = []"
  shows "\<exists>summary. RunSummary_init astro fs fname = Inr summary \<and>
                   obs_id summary = None \<and> file_name summary = None \<and>
                   tel_pointing_start summary = None \<and> tel_pointing_stop summary = None \<and>
                   ef_file_name evts = fname \<and>
                   (MagicRoot_get_obs_id fname = Inr (ef_obs_id evts) \<or>
                    LstDl2_get_obs_id fname = Inr (ef_obs_id evts) \<or>
                    LstDl3_get_obs_id fname = Inr (ef_obs_id evts))"
  using RunSummary_init_no_events [OF assms] open_event_file_keeps [OF assms(1)] by simp

theorem RunSummary_init_zero_events_witness:
  "\<exists>summary. RunSummary_init example_astro corrupted_h5 ''/data/dl2_LST-1.Run02008.h5'' =
               Inr summary \<and>
             obs_id summary = None \<and> file_name summary = None \<and>
             tel_pointing_start summary = None \<and> tel_pointing_stop summary = None"
proof -
  have "mjd dl2_empty_sample = Some (tagged [] u_d)" and "vals (tagged [] u_d) = []"
    by (simp_all add: dl2_empty_sample_def tagged_def)
  with RunSummary_init_zero_events
         [OF corrupted_h5_open [of example_astro], of "tagged [] u_d"]
  show ?thesis by auto
qed

text \<open>
  The claim as it was stated fails on that file: the run identifier 2008 is parsed from the
  name, yet the summary holds neither the path nor the identifier.
\<close>

theorem RunSummary_init_zero_events_counterexample:
  "LstDl2_get_obs_id ''/data/dl2_LST-1.Run02008.h5'' = Inr 2008 \<and>
   LstDl2_load_events example_astro corrupted_h5 ''/data/dl2_LST-1.Run02008.h5'' None =
     Inr dl2_empty_sample \<and>
   RunSummary_init example_astro corrupted_h5 ''/data/dl2_LST-1.Run02008.h5'' = Inr empty_run \<and>
   file_name empty_run \<noteq> Some ''/data/dl2_LST-1.Run02008.h5'' \<and>
   obs_id empty_run \<noteq> Some 2008"
proof -
  have "RunSummary_init example_astro corrupted_h5 ''/data/dl2_LST-1.Run02008.h5'' =
        Inr empty_run"
    using RunSummary_init_no_events
            [OF corrupted_h5_open [of example_astro], of "tagged [] u_d"]
    by (simp add: dl2_empty_sample_def tagged_def empty_run_def)
  moreover have
    "LstDl2_load_events example_astro corrupted_h5 ''/data/dl2_LST-1.Run02008.h5'' None =
       Inr dl2_empty_sample"
    by (rule LstDl2_load_events_missing) (simp add: corrupted_h5_def)
  ultimately show ?thesis
    using run02008_name by (simp add: empty_run_def)
qed

section \<open>The altitude of the pointing\<close>

lemma map_of_map_keyed:
  "map_of (map (\<lambda>(k, v). (k, f k v)) xs) k = map_option (f k) (map_of xs k)"
  by (induction xs) auto

text \<open>Every sample that a loader returns has its zenith distance, as an angle.\<close>

lemma EventSample_init_zd:
  "EventSample_init e_ra e_dec e_energy p_ra p_dec p_az p_zd m d eff = Inr s \<Longrightarrow>
   pointing_zd s = p_zd"
  by (auto simp: EventSample_init_def Let_def split: option.splits sum.splits)

lemma make_sample_zd:
  assumes "make_sample ed rest = Inr s"
  shows "map_of ed ''pointing_zd'' = Some (pointing_zd s)"
  using assms unfolding make_sample_def
  by (auto dest!: ebind_Inr EventSample_init_zd simp: getitem_def split: option.splits prod.splits)

lemma magic_read_zd:
  assumes "magic_read input_file cuts = Inr ed"
  shows "\<exists>c. map_of ed ''pointing_zd'' = Some (Some c)"
proof (cases input_file)
  case None
  then show ?thesis using assms
    by (auto simp: magic_read_def update_conv' magic_data_names_mapping_def zeros0_def)
next
  case (Some evts)
  then show ?thesis using assms
    by (auto simp: magic_read_def Let_def update_conv' magic_data_names_mapping_def
        magic_mc_names_mapping_def zeros0_def dest!: ebind_Inr split: if_splits)
qed

lemma magic_finite_zd:
  assumes "magic_finite ed0 = Inr ed" and "map_of ed0 ''pointing_zd'' = Some (Some c)"
  shows "\<exists>c'. map_of ed ''pointing_zd'' = Some (Some c') \<and> unit c' = Some u_deg"
  using assms
  by (auto simp: magic_finite_def map_of_map_keyed select_and_tag_def magic_data_units_def Let_def
      dest!: ebind_Inr)

lemma MagicRoot_load_events_zd:
  assumes "MagicRoot_load_events fs fname cuts = Inr s"
  shows "\<exists>zd. pointing_zd s = Some zd \<and> unit zd = Some u_deg"
proof -
  from assms obtain input_file ed0 ed rest
    where "magic_read input_file cuts = Inr ed0" and "magic_finite ed0 = Inr ed"
      and "make_sample ed rest = Inr s"
    by (auto simp: MagicRoot_load_events_def dest!: ebind_Inr
        split: option.splits file_content.splits)
  then show ?thesis
    using magic_read_zd magic_finite_zd make_sample_zd by fastforce
qed

lemma map_of_cond_update:
  "map_of (if b then AList.update k v ed else ed) k' =
     (if b \<and> k = k' then Some v else map_of ed k')"
  by (simp add: update_conv')

lemma rename_columns_lookup:
  "map_of (rename_columns mapping t ed) k =
     (case filter (\<lambda>(key, name). name = k \<and> key \<in> set (cols t)) mapping of
        [] \<Rightarrow> map_of ed k
      | x # xs \<Rightarrow> Some (Some (plain (col t (fst (last (x # xs)))))))"
  unfolding rename_columns_def
  by (induction mapping arbitrary: ed) (auto simp: update_conv' split: list.splits if_splits)

lemma rename_zd_tel:
  assumes "''zd_tel'' \<in> set (cols t)"
  shows "map_of (rename_columns dl2_data_names_mapping t ed) ''pointing_zd'' =
         Some (Some (plain (col t ''zd_tel'')))"
  using assms
  by (simp add: rename_columns_lookup dl2_data_names_mapping_def)

lemma dl2_try_zd:
  assumes "dl2_try astro h5 cuts ed0 = Inr ed"
  shows "\<exists>c. map_of ed ''pointing_zd'' = Some (Some c)"
proof -
  from assms obtain table where h5: "h5 = Some table"
    by (cases h5) (auto simp: dl2_try_def)
  define data where
    "data = drop_assign ''zd_tel'' (\<lambda>r. fsub (Fin (pi / 2)) (r ''alt_tel'')) (query cuts table)"
  have zd: "''zd_tel'' \<in> set (cols data)"
    by (simp add: data_def drop_assign_def)
  note rn = rename_zd_tel [OF zd, of ed0]
  show ?thesis
    using assms rn unfolding h5 dl2_try_def data_def [symmetric] option.case Let_def
    by (auto dest!: ebind_Inr simp: update_conv' split: if_splits)
qed

lemma dl2_read_zd:
  assumes "dl2_read astro h5 cuts = Inr ed"
  shows "\<exists>c. map_of ed ''pointing_zd'' = Some (Some c)"
  using assms dl2_try_zd
  by (auto simp: dl2_read_def Let_def dl2_data_names_mapping_def zeros0_def
      split: sum.splits error.splits)

lemma dl2_finite_zd:
  assumes "dl2_finite ed0 = Inr ed" and "map_of ed0 ''pointing_zd'' = Some (Some c)"
  shows "\<exists>c'. map_of ed ''pointing_zd'' = Some (Some c') \<and> unit c' = Some u_rad"
  using assms
  by (auto simp: dl2_finite_def map_of_map_keyed select_and_tag_def dl2_data_units_def Let_def
      dest!: ebind_Inr)

lemma LstDl2_load_events_zd:
  assumes "LstDl2_load_events astro fs fname cuts = Inr s"
  shows "\<exists>zd. pointing_zd s = Some zd \<and> unit zd = Some u_rad"
proof -
  from assms obtain h5 ed0 ed rest
    where "dl2_read astro h5 cuts = Inr ed0" and "dl2_finite ed0 = Inr ed"
      and "make_sample ed rest = Inr s"
    by (auto simp: LstDl2_load_events_def dest!: ebind_Inr
        split: option.splits file_content.splits)
  then show ?thesis
    using dl2_read_zd dl2_finite_zd make_sample_zd by fastforce
qed

lemma all_present_update: "all_present ed \<Longrightarrow> all_present (AList.update k (Some c) ed)"
  by (auto simp: all_present_def update_conv')

lemma all_present_fold:
  "all_present ed \<Longrightarrow>
   all_present (fold (\<lambda>(key, name) ed.
             if key \<in> set (cols t) then AList.update name (Some (plain (col t key))) ed else ed)
          mapping ed)"
  by (induction mapping arbitrary: ed) (auto simp: all_present_update)

lemma all_present_rename: "all_present (rename_columns mapping t [])"
  unfolding rename_columns_def by (rule all_present_fold) (simp add: all_present_def)

lemma dl3_try_present:
  assumes "dl3_try astro hdu = (h, Some ed)"
  shows "all_present ed"
proof -
  from assms obtain evts where hdu: "hdu = Some evts"
    by (cases hdu) (auto simp: dl3_try_def)
  note rn = all_present_rename [of dl3_data_names_mapping "data evts"]
  show ?thesis
    using assms rn unfolding hdu dl3_try_def option.case Let_def
    by (auto simp: all_present_update split: option.splits)
qed

lemma dl3_finite_zd:
  assumes "dl3_finite ed0 = Inr ed" and "map_of ed0 ''pointing_zd'' = Some (Some c)"
  shows "\<exists>c'. map_of ed ''pointing_zd'' = Some (Some c') \<and> unit c' = Some u_deg"
  using assms
  by (auto simp: dl3_finite_def map_of_map_keyed dl3_data_units_def dest!: ebind_Inr)

lemma dl3_finite_keys:
  assumes "dl3_finite ed0 = Inr ed" and "map_of ed k = Some v"
  shows "\<exists>v0. map_of ed0 k = Some v0"
  using assms
  by (auto simp: dl3_finite_def map_of_map_keyed dest!: ebind_Inr)

lemma LstDl3_load_events_zd:
  assumes "LstDl3_load_events astro fs fname cuts = Inr s"
  shows "\<exists>zd. pointing_zd s = Some zd \<and> unit zd = Some u_deg"
proof -
  from assms obtain hdu h ed0 ed rest
    where tr: "dl3_try astro hdu = (h, Some ed0)" and fin: "dl3_finite ed0 = Inr ed"
      and mk: "make_sample ed rest = Inr s"
    by (auto simp: LstDl3_load_events_def dest!: ebind_Inr
        split: option.splits file_content.splits prod.splits)
  from make_sample_zd [OF mk] have "map_of ed ''pointing_zd'' = Some (pointing_zd s)" .
  moreover from this dl3_finite_keys [OF fin] obtain v0 where v0: "map_of ed0 ''pointing_zd'' = Some v0"
    by blast
  moreover from dl3_try_present [OF tr] v0 obtain c where "v0 = Some c"
    by (auto simp: all_present_def)
  ultimately show ?thesis
    using dl3_finite_zd [OF fin] v0 by fastforce
qed


lemma pointing_alt_angle:
  assumes "pointing_zd s = Some zd" and "unit zd = Some u" and "dimension_of u = Angle"
  shows "pointing_alt s =
         Inr (tagged (map (\<lambda>z. fsub (Fin 90) (in_degrees u z)) (vals zd)) u_deg)"
  using assms by (simp add: pointing_alt_def)

lemma loaded_zd:
  assumes "MagicRoot_load_events fs fname cuts = Inr s \<or>
           LstDl2_load_events astro fs fname cuts = Inr s \<or>
           LstDl3_load_events astro fs fname cuts = Inr s"
  shows "\<exists>zd u. pointing_zd s = Some zd \<and> unit zd = Some u \<and> dimension_of u = Angle"
proof -
  from assms consider
      "\<exists>zd. pointing_zd s = Some zd \<and> unit zd = Some u_deg"
    | "\<exists>zd. pointing_zd s = Some zd \<and> unit zd = Some u_rad"
    using MagicRoot_load_events_zd LstDl2_load_events_zd LstDl3_load_events_zd by blast
  then show ?thesis
  proof cases
    case 1
    then obtain zd where "pointing_zd s = Some zd" and "unit zd = Some u_deg" by blast
    moreover have "dimension_of u_deg = Angle" by simp
    ultimately show ?thesis by blast
  next
    case 2
    then obtain zd where "pointing_zd s = Some zd" and "unit zd = Some u_rad" by blast
    moreover have "dimension_of u_rad = Angle" by simp
    ultimately show ?thesis by blast
  qed
qed

text \<open>
  Claim C9. \<open>pointing_alt\<close> is computed from \<open>pointing_zd\<close>: for a sample whose zenith
  distance is an angle, it is, event by event, 90 degrees minus the zenith distance taken in
  degrees (for a finite zenith distance \<open>z\<close> in the unit \<open>u\<close>, the number
  \<open>90 - z * deg_per u\<close>). Every sample that one of the three loaders returns is such a
  sample. \<open>EventSample\<close> has no field for the altitude.
\<close>

theorem pointing_alt_ninety_minus_zd:
  "(pointing_zd s = Some zd \<and> unit zd = Some u \<and> dimension_of u = Angle \<longrightarrow>
      pointing_alt s = Inr (tagged (map (\<lambda>z. fsub (Fin 90) (in_degrees u z)) (vals zd)) u_deg)) \<and>
   (MagicRoot_load_events fs fname cuts = Inr s' \<or>
    LstDl2_load_events astro fs fname cuts = Inr s' \<or>
    LstDl3_load_events astro fs fname cuts = Inr s' \<longrightarrow>
      (\<exists>zd' u'. pointing_zd s' = Some zd' \<and> unit zd' = Some u' \<and> dimension_of u' = Angle \<and>
         pointing_alt s' =
           Inr (tagged (map (\<lambda>z. fsub (Fin 90) (in_degrees u' z)) (vals zd')) u_deg))) \<and>
   fsub (Fin 90) (in_degrees u (Fin z)) = Fin (90 - z * deg_per u)"
proof (intro conjI impI)
  assume "pointing_zd s = Some zd \<and> unit zd = Some u \<and> dimension_of u = Angle"
  then show "pointing_alt s =
             Inr (tagged (map (\<lambda>z. fsub (Fin 90) (in_degrees u z)) (vals zd)) u_deg)"
    by (simp add: pointing_alt_angle)
next
  assume "MagicRoot_load_events fs fname cuts = Inr s' \<or>
          LstDl2_load_events astro fs fname cuts = Inr s' \<or>
          LstDl3_load_events astro fs fname cuts = Inr s'"
  then obtain zd' u' where "pointing_zd s' = Some zd'" and "unit zd' = Some u'"
    and "dimension_of u' = Angle"
    using loaded_zd by blast
  then show "\<exists>zd' u'. pointing_zd s' = Some zd' \<and> unit zd' = Some u' \<and> dimension_of u' = Angle \<and>
         pointing_alt s' =
           Inr (tagged (map (\<lambda>z. fsub (Fin 90) (in_degrees u' z)) (vals zd')) u_deg)"
    using pointing_alt_angle by blast
next
  show "fsub (Fin 90) (in_degrees u (Fin z)) = Fin (90 - z * deg_per u)"
    by (simp add: fsub_def in_degrees_def)
qed

theorem pointing_alt_ninety_minus_zd_witness:
  "LstDl3_load_events example_astro [''f'' \<mapsto> FitsFile (Some nan_energy_hdu)] ''f'' None =
     Inr nan_energy_sample \<and>
   pointing_zd nan_energy_sample = Some (tagged [Fin 68, Fin 68] u_deg) \<and>
   pointing_alt nan_energy_sample = Inr (tagged [Fin 22, Fin 22] u_deg)"
proof -
  have zd: "pointing_zd nan_energy_sample = Some (tagged [Fin 68, Fin 68] u_deg)"
    by (simp add: nan_energy_sample_def)
  from pointing_alt_ninety_minus_zd
         [of nan_energy_sample "tagged [Fin 68, Fin 68] u_deg" u_deg
             "[''f'' \<mapsto> FitsFile (Some nan_energy_hdu)]" "''f''" None nan_energy_sample
             example_astro 68]
  have "\<exists>zd' u'. pointing_zd nan_energy_sample = Some zd' \<and> unit zd' = Some u' \<and>
          pointing_alt nan_energy_sample =
            Inr (tagged (map (\<lambda>z. fsub (Fin 90) (in_degrees u' z)) (vals zd')) u_deg)"
    using nan_energy_load by blast
  then have "pointing_alt nan_energy_sample = Inr (tagged [Fin 22, Fin 22] u_deg)"
    using zd by (auto simp: tagged_def fsub_def in_degrees_def)
  then show ?thesis using zd nan_energy_load by simp
qed

section \<open>The run identifier\<close>

text \<open>The backtracking matcher finds a match exactly when the pattern has one.\<close>

lemma first_some_Some:
  "first_some f ks = Some r \<Longrightarrow> \<exists>k \<in> set ks. f k = Some r"
  by (induction ks) (auto split: option.splits)

lemma first_some_None: "first_some f ks = None \<longleftrightarrow> (\<forall>k \<in> set ks. f k = None)"
  by (induction ks) (auto split: option.splits)

lemma list_all_takeWhile: "list_all P (takeWhile P s)"
  by (induction s) auto

lemma take_takeWhile:
  "k \<le> length (takeWhile P s) \<Longrightarrow> list_all P (take k s)"
proof (induction s arbitrary: k)
  case Nil
  then show ?case by simp
next
  case (Cons x xs)
  then show ?case by (cases k) (auto split: if_splits)
qed

lemma takeWhile_prefix_length:
  "list_all P u \<Longrightarrow> length u \<le> length (takeWhile P (u @ t))"
  by (induction u) auto

lemma atoms_match_OnceI:
  "cls c \<Longrightarrow> atoms_match as w' g' \<Longrightarrow>
   atoms_match (Atom cls Once cap # as) (c # w') (if cap then c # g' else g')"
  by simp

lemma atoms_match_PlusI:
  "u \<noteq> [] \<Longrightarrow> list_all cls u \<Longrightarrow> atoms_match as w' g' \<Longrightarrow>
   atoms_match (Atom cls Plus cap # as) (u @ w') (if cap then u @ g' else g')"
  by (simp del: append_eq_append_conv append_eq_append_conv2) blast

lemma atoms_match_StarI:
  "list_all cls u \<Longrightarrow> atoms_match as w' g' \<Longrightarrow>
   atoms_match (Atom cls Star cap # as) (u @ w') (if cap then u @ g' else g')"
  by (simp del: append_eq_append_conv append_eq_append_conv2) blast

lemma repetition_step:
  assumes "first_some
             (\<lambda>k. map_option (\<lambda>(g, rest). (if cap then take k s @ g else g, rest))
                    (match_here as (drop k s)))
             (rev [lo ..< Suc n]) = Some (g, rest)"
  obtains k g' where "lo \<le> k" and "k \<le> n"
    and "match_here as (drop k s) = Some (g', rest)"
    and "g = (if cap then take k s @ g' else g')"
proof -
  from first_some_Some [OF assms] obtain k
    where k: "k \<in> set (rev [lo ..< Suc n])"
      and fk: "map_option (\<lambda>(g, rest). (if cap then take k s @ g else g, rest))
                 (match_here as (drop k s)) = Some (g, rest)"
    by blast
  from fk obtain g' where "match_here as (drop k s) = Some (g', rest)"
    and "g = (if cap then take k s @ g' else g')"
    by (cases "match_here as (drop k s)") (auto split: prod.splits)
  moreover from k have "lo \<le> k" "k \<le> n" by auto
  ultimately show thesis using that by blast
qed

lemma match_here_sound:
  "match_here p s = Some (g, rest) \<Longrightarrow> \<exists>w. s = w @ rest \<and> atoms_match p w g"
proof (induction p arbitrary: s g rest)
  case Nil
  then show ?case by simp
next
  case (Cons a as)
  obtain cls q cap where a: "a = Atom cls q cap" by (cases a)
  show ?case
  proof (cases q)
    case Once
    from Cons.prems a Once obtain c cs where s: "s = c # cs" and c: "cls c"
      by (cases s) (auto split: if_splits)
    from Cons.prems a Once s c obtain g' where m: "match_here as cs = Some (g', rest)"
      and g: "g = (if cap then c # g' else g')"
      by (cases "match_here as cs") (auto split: prod.splits)
    from Cons.IH [OF m] obtain w' where "cs = w' @ rest" "atoms_match as w' g'"
      by auto
    then show ?thesis
      using a Once s c g atoms_match_OnceI [of cls c as w' g' cap] by auto
  next
    case Plus
    from Cons.prems a Plus have
      "first_some
         (\<lambda>k. map_option (\<lambda>(g, rest). (if cap then take k s @ g else g, rest))
                (match_here as (drop k s)))
         (rev [1 ..< Suc (length (takeWhile cls s))]) = Some (g, rest)"
      by (simp add: Let_def del: upt_Suc)
    then obtain k g' where k: "1 \<le> k" "k \<le> length (takeWhile cls s)"
      and m: "match_here as (drop k s) = Some (g', rest)"
      and g: "g = (if cap then take k s @ g' else g')"
      by (rule repetition_step)
    from Cons.IH [OF m] obtain w' where w': "drop k s = w' @ rest" "atoms_match as w' g'"
      by auto
    have "s = take k s @ w' @ rest" using w'(1) by (metis append_take_drop_id)
    moreover have "k \<le> length s"
      using k(2) length_takeWhile_le [of cls s] by (rule le_trans)
    then have "take k s \<noteq> []" using k(1) by auto
    moreover have "list_all cls (take k s)" using k(2) by (rule take_takeWhile)
    ultimately have "s = (take k s @ w') @ rest"
      and "atoms_match (Atom cls Plus cap # as) (take k s @ w') g"
      unfolding g using w'(2) by (simp_all add: atoms_match_PlusI del: atoms_match.simps)
    then show ?thesis using a Plus by blast
  next
    case Star
    from Cons.prems a Star have
      "first_some
         (\<lambda>k. map_option (\<lambda>(g, rest). (if cap then take k s @ g else g, rest))
                (match_here as (drop k s)))
         (rev [0 ..< Suc (length (takeWhile cls s))]) = Some (g, rest)"
      by (simp add: Let_def del: upt_Suc)
    then obtain k g' where k: "k \<le> length (takeWhile cls s)"
      and m: "match_here as (drop k s) = Some (g', rest)"
      and g: "g = (if cap then take k s @ g' else g')"
      by (rule repetition_step)
    from Cons.IH [OF m] obtain w' where w': "drop k s = w' @ rest" "atoms_match as w' g'"
      by auto
    have "s = take k s @ w' @ rest" using w'(1) by (metis append_take_drop_id)
    moreover have "list_all cls (take k s)" using k by (rule take_takeWhile)
    ultimately have "s = (take k s @ w') @ rest"
      and "atoms_match (Atom cls Star cap # as) (take k s @ w') g"
      unfolding g using w'(2) by (simp_all add: atoms_match_StarI del: atoms_match.simps)
    then show ?thesis using a Star by blast
  qed
qed

declare findall.simps [simp del]

lemma first_some_not_None: "k \<in> set ks \<Longrightarrow> f k \<noteq> None \<Longrightarrow> first_some f ks \<noteq> None"
  by (simp add: first_some_None) blast

lemma match_here_complete:
  "atoms_match p w g \<Longrightarrow> \<exists>r. match_here p (w @ rest) = Some r"
proof (induction p arbitrary: w g)
  case Nil
  then show ?case by simp
next
  case (Cons a as)
  obtain cls q cap where a: "a = Atom cls q cap" by (cases a)
  show ?case
  proof (cases q)
    case Once
    with Cons.prems a obtain c w' g' where w: "w = c # w'" and c: "cls c"
      and m: "atoms_match as w' g'"
      by auto
    from Cons.IH [OF m] obtain r where "match_here as (w' @ rest) = Some r" by blast
    then show ?thesis using a Once w c by (cases r) simp
  next
    case Plus
    with Cons.prems a obtain u w' g' where w: "w = u @ w'" and u: "u \<noteq> []" "list_all cls u"
      and m: "atoms_match as w' g'"
      by auto
    from Cons.IH [OF m] obtain r where r: "match_here as (w' @ rest) = Some r" by blast
    let ?s = "w @ rest"
    let ?f = "\<lambda>k. map_option (\<lambda>(g, rest). (if cap then take k ?s @ g else g, rest))
                    (match_here as (drop k ?s))"
    have "length u \<le> length (takeWhile cls ?s)"
      using takeWhile_prefix_length [OF u(2), of "w' @ rest"] w by simp
    moreover have "1 \<le> length u" using u(1) by (cases u) auto
    ultimately have "length u \<in> set (rev [1 ..< Suc (length (takeWhile cls ?s))])" by auto
    moreover have "?f (length u) \<noteq> None" using r w by (cases r) simp
    ultimately have "first_some ?f (rev [1 ..< Suc (length (takeWhile cls ?s))]) \<noteq> None"
      by (rule first_some_not_None)
    then show ?thesis using a Plus by (simp add: Let_def del: upt_Suc)
  next
    case Star
    with Cons.prems a obtain u w' g' where w: "w = u @ w'" and u: "list_all cls u"
      and m: "atoms_match as w' g'"
      by auto
    from Cons.IH [OF m] obtain r where r: "match_here as (w' @ rest) = Some r" by blast
    let ?s = "w @ rest"
    let ?f = "\<lambda>k. map_option (\<lambda>(g, rest). (if cap then take k ?s @ g else g, rest))
                    (match_here as (drop k ?s))"
    have "length u \<le> length (takeWhile cls ?s)"
      using takeWhile_prefix_length [OF u, of "w' @ rest"] w by simp
    then have "length u \<in> set (rev [0 ..< Suc (length (takeWhile cls ?s))])" by auto
    moreover have "?f (length u) \<noteq> None" using r w by (cases r) simp
    ultimately have "first_some ?f (rev [0 ..< Suc (length (takeWhile cls ?s))]) \<noteq> None"
      by (rule first_some_not_None)
    then show ?thesis using a Star by (simp add: Let_def del: upt_Suc)
  qed
qed

lemma re_search_sound:
  "re_search p s = Some (g, rest) \<Longrightarrow> \<exists>pre w. s = pre @ w @ rest \<and> atoms_match p w g"
proof (induction s)
  case Nil
  then show ?case using match_here_sound [of p "[]" g rest] by auto
next
  case (Cons c cs)
  show ?case
  proof (cases "match_here p (c # cs)")
    case None
    with Cons.prems have "re_search p cs = Some (g, rest)" by simp
    from Cons.IH [OF this] obtain pre w where "cs = pre @ w @ rest" "atoms_match p w g" by blast
    then have "c # cs = (c # pre) @ w @ rest" by simp
    then show ?thesis using \<open>atoms_match p w g\<close> by blast
  next
    case (Some r)
    with Cons.prems have "match_here p (c # cs) = Some (g, rest)" by simp
    from match_here_sound [OF this] obtain w where "c # cs = [] @ w @ rest" "atoms_match p w g"
      by auto
    then show ?thesis by blast
  qed
qed

lemma re_search_complete:
  "atoms_match p w g \<Longrightarrow> \<exists>r. re_search p (pre @ w @ post) = Some r"
proof (induction pre)
  case Nil
  from match_here_complete [OF Nil, of post] obtain r where "match_here p (w @ post) = Some r"
    by blast
  then show ?case by (cases "w @ post") auto
next
  case (Cons c pre)
  from Cons.IH [OF Cons.prems] obtain r where "re_search p (pre @ w @ post) = Some r" by blast
  then show ?case by (cases "match_here p (c # pre @ w @ post)") auto
qed

lemma re_search_occurs: "(\<exists>r. re_search p s = Some r) \<longleftrightarrow> (\<exists>g. occurs p s g)"
proof
  assume "\<exists>r. re_search p s = Some r"
  then obtain g rest where "re_search p s = Some (g, rest)" by auto
  from re_search_sound [OF this] show "\<exists>g. occurs p s g" unfolding occurs_def by blast
next
  assume "\<exists>g. occurs p s g"
  then show "\<exists>r. re_search p s = Some r"
    unfolding occurs_def using re_search_complete by blast
qed

lemma findall_Nil: "findall p s = [] \<longleftrightarrow> re_search p s = None"
  by (subst findall.simps) (simp split: option.splits prod.splits)

lemma findall_Cons:
  "findall p s = g # gs \<Longrightarrow> \<exists>rest. re_search p s = Some (g, rest)"
  by (subst (asm) findall.simps) (simp split: option.splits prod.splits)

lemma get_obs_id_Inr:
  assumes "get_obs_id p fname = Inr n"
  shows "\<exists>g. occurs p fname g \<and> n = int_of_digits g"
proof -
  from assms obtain g gs where "findall p fname = g # gs" and n: "n = int_of_digits g"
    by (auto simp: get_obs_id_def split: list.splits)
  from findall_Cons [OF this(1)] obtain rest where "re_search p fname = Some (g, rest)" by blast
  from re_search_sound [OF this] have "occurs p fname g" unfolding occurs_def by blast
  then show ?thesis using n by blast
qed

lemma get_obs_id_Inl:
  "(\<exists>e. get_obs_id p fname = Inl e) \<longleftrightarrow> \<not> (\<exists>g. occurs p fname g)"
proof -
  have "(\<exists>e. get_obs_id p fname = Inl e) \<longleftrightarrow> findall p fname = []"
    by (auto simp: get_obs_id_def split: list.splits)
  also have "\<dots> \<longleftrightarrow> \<not> (\<exists>r. re_search p fname = Some r)"
    unfolding findall_Nil by (cases "re_search p fname") auto
  finally show ?thesis by (simp only: re_search_occurs)
qed

lemma get_obs_id_error:
  "get_obs_id p fname = Inl e \<Longrightarrow>
   e = RuntimeError (''Can not find observations ID in '' @ fname)"
  by (auto simp: get_obs_id_def split: list.splits)

text \<open>The pattern of the ROOT files, atom by atom.\<close>

lemma atoms_match_lits:
  "atoms_match (lits l @ as) w g \<longleftrightarrow> (\<exists>w'. w = l @ w' \<and> atoms_match as w' g)"
  by (induction l arbitrary: w) (auto simp: lits_def lit_def)

lemma atoms_match_lits_end:
  "atoms_match (lits l) w g \<longleftrightarrow> w = l \<and> g = []"
  using atoms_match_lits [of l "[]" w g] by auto

lemma is_digit_word: "is_digit c \<Longrightarrow> is_word c"
  by (simp add: is_digit_def is_word_def is_alnum_def Let_def)

lemma digit_or_word: "(\<lambda>c. is_digit c \<or> is_word c) = is_word"
  using is_digit_word by auto

lemma atoms_match_litsI:
  "atoms_match as w' g \<Longrightarrow> atoms_match (lits l @ as) (l @ w') g"
  by (simp add: atoms_match_lits)

lemma magic_pattern_words:
  "atoms_match magic_pattern w g \<longleftrightarrow>
     (\<exists>star a c nm v.
        w = star @ a @ ''_'' @ g @ ''_'' @ [c] @ ''_'' @ nm @ ''-W'' @ v @ ''.root'' \<and>
        list_all any_char star \<and>
        a \<noteq> [] \<and> list_all is_digit a \<and>
        g \<noteq> [] \<and> list_all is_digit g \<and>
        is_word c \<and>
        nm \<noteq> [] \<and> list_all is_word nm \<and>
        v \<noteq> [] \<and> list_all (\<lambda>x. is_digit x \<or> x = CHR ''.'' \<or> x = CHR ''+'') v)"
  (is "?lhs \<longleftrightarrow> ?rhs")
proof
  assume ?lhs
  then show ?rhs
    unfolding magic_pattern_def digit_or_word
    apply (simp add: atoms_match_lits atoms_match_lits_end
        del: append_eq_append_conv append_eq_append_conv2)
    apply (elim exE conjE)
    apply (intro exI conjI)
              apply simp_all
    done
next
  assume ?rhs
  then obtain star a c nm v
    where w: "w = star @ a @ ''_'' @ g @ ''_'' @ [c] @ ''_'' @ nm @ ''-W'' @ v @ ''.root''"
      and star: "list_all any_char star"
      and a: "a \<noteq> []" "list_all is_digit a"
      and g: "g \<noteq> []" "list_all is_digit g"
      and c: "is_word c"
      and nm: "nm \<noteq> []" "list_all is_word nm"
      and v: "v \<noteq> []" "list_all (\<lambda>x. is_digit x \<or> x = CHR ''.'' \<or> x = CHR ''+'') v"
    by blast
  let ?ver = "\<lambda>x. is_digit x \<or> x = CHR ''.'' \<or> x = CHR ''+''"
  let ?p1 = "lits ''.root''"
  let ?p2 = "Atom ?ver Plus False # ?p1"
  let ?p3 = "lits ''-W'' @ ?p2"
  let ?p4 = "Atom is_word Plus False # ?p3"
  let ?p5 = "lits ''_'' @ ?p4"
  let ?p6 = "Atom is_word Once False # ?p5"
  let ?p7 = "lits ''_'' @ ?p6"
  let ?p8 = "Atom is_digit Plus True # ?p7"
  let ?p9 = "lits ''_'' @ ?p8"
  let ?p10 = "Atom is_digit Plus False # ?p9"
  let ?p11 = "Atom any_char Star False # ?p10"
  have m1: "atoms_match ?p1 ''.root'' []"
    by (simp add: atoms_match_lits_end)
  have m2: "atoms_match ?p2 (v @ ''.root'') []"
    using atoms_match_PlusI [OF v m1, of False] by simp
  have m3: "atoms_match ?p3 (''-W'' @ v @ ''.root'') []"
    using m2 by (rule atoms_match_litsI)
  have m4: "atoms_match ?p4 (nm @ ''-W'' @ v @ ''.root'') []"
    using atoms_match_PlusI [OF nm m3, of False] by simp
  have m5: "atoms_match ?p5 (''_'' @ nm @ ''-W'' @ v @ ''.root'') []"
    using m4 by (rule atoms_match_litsI)
  have m6: "atoms_match ?p6 (c # ''_'' @ nm @ ''-W'' @ v @ ''.root'') []"
    using atoms_match_OnceI [where cls = is_word and c = c and cap = False, OF c m5] by simp
  have m7: "atoms_match ?p7 (''_'' @ c # ''_'' @ nm @ ''-W'' @ v @ ''.root'') []"
    using m6 by (rule atoms_match_litsI)
  have m8: "atoms_match ?p8 (g @ ''_'' @ c # ''_'' @ nm @ ''-W'' @ v @ ''.root'') g"
    using atoms_match_PlusI [OF g m7, of True] by simp
  have m9: "atoms_match ?p9 (''_'' @ g @ ''_'' @ c # ''_'' @ nm @ ''-W'' @ v @ ''.root'') g"
    using m8 by (rule atoms_match_litsI)
  have m10: "atoms_match ?p10 (a @ ''_'' @ g @ ''_'' @ c # ''_'' @ nm @ ''-W'' @ v @ ''.root'') g"
    using atoms_match_PlusI [OF a m9, of False] by simp
  have m11: "atoms_match ?p11
               (star @ a @ ''_'' @ g @ ''_'' @ c # ''_'' @ nm @ ''-W'' @ v @ ''.root'') g"
    using atoms_match_StarI [OF star m10, of False] by simp
  have "magic_pattern = ?p11"
    by (simp add: magic_pattern_def digit_or_word)
  then show ?lhs using m11 w by simp
qed

lemma magic_occurs: "occurs magic_pattern fname g \<longleftrightarrow> magic_name fname g"
proof
  assume "occurs magic_pattern fname g"
  then obtain pre w post where f: "fname = pre @ w @ post" and "atoms_match magic_pattern w g"
    unfolding occurs_def by blast
  then obtain star a c nm v
    where w: "w = star @ a @ ''_'' @ g @ ''_'' @ [c] @ ''_'' @ nm @ ''-W'' @ v @ ''.root''"
      and rest: "a \<noteq> []" "list_all is_digit a" "g \<noteq> []" "list_all is_digit g" "is_word c"
        "nm \<noteq> []" "list_all is_word nm" "v \<noteq> []"
        "list_all (\<lambda>x. is_digit x \<or> x = CHR ''.'' \<or> x = CHR ''+'') v"
    unfolding magic_pattern_words by blast
  have "fname = (pre @ star) @ a @ ''_'' @ g @ ''_'' @ [c] @ ''_'' @ nm @ ''-W'' @ v @ ''.root'' @ post"
    using f w by simp
  then show "magic_name fname g"
    unfolding magic_name_def using rest by blast
next
  assume "magic_name fname g"
  then obtain pre a c nm v post
    where f: "fname = pre @ a @ ''_'' @ g @ ''_'' @ [c] @ ''_'' @ nm @ ''-W'' @ v @ ''.root'' @ post"
      and rest: "a \<noteq> []" "list_all is_digit a" "g \<noteq> []" "list_all is_digit g" "is_word c"
        "nm \<noteq> []" "list_all is_word nm" "v \<noteq> []"
        "list_all (\<lambda>x. is_digit x \<or> x = CHR ''.'' \<or> x = CHR ''+'') v"
    unfolding magic_name_def by blast
  let ?w = "[] @ a @ ''_'' @ g @ ''_'' @ [c] @ ''_'' @ nm @ ''-W'' @ v @ ''.root''"
  have "atoms_match magic_pattern ?w g"
    unfolding magic_pattern_words using rest by (intro exI [of _ "[]"] exI conjI refl) simp_all
  moreover have "fname = pre @ ?w @ post" using f by simp
  ultimately show "occurs magic_pattern fname g"
    unfolding occurs_def by blast
qed

lemma magic_example_name:
  "magic_name ''20210101_12345_S_SourceName-W0.40+035.root'' ''12345''"
proof -
  have "''20210101_12345_S_SourceName-W0.40+035.root'' =
        [] @ ''20210101'' @ ''_'' @ ''12345'' @ ''_'' @ [CHR ''S''] @ ''_'' @ ''SourceName'' @
        ''-W'' @ ''0.40+035'' @ ''.root'' @ []"
    by simp
  moreover have "list_all is_digit ''20210101''" "list_all is_digit ''12345''"
    "is_word CHR ''S''" "list_all is_word ''SourceName''"
    "list_all (\<lambda>x. is_digit x \<or> x = CHR ''.'' \<or> x = CHR ''+'') ''0.40+035''"
    by (simp_all add: is_digit_def is_word_def is_alnum_def)
  ultimately show ?thesis
    unfolding magic_name_def
    by (intro exI [of _ "[]"] exI [of _ "''20210101''"] exI [of _ "CHR ''S''"]
        exI [of _ "''SourceName''"] exI [of _ "''0.40+035''"] conjI) simp_all
qed

lemma magic_example_id:
  "MagicRoot_get_obs_id ''20210101_12345_S_SourceName-W0.40+035.root'' = Inr 12345"
  by code_simp

lemma magic_example_no_id:
  "MagicRoot_get_obs_id ''20210101_S_SourceName-W0.40+035.root'' =
     Inl (RuntimeError ''Can not find observations ID in 20210101_S_SourceName-W0.40+035.root'')"
  by code_simp

text \<open>
  Claim C8. When the pattern of the ROOT files matches the name, \<open>get_obs_id\<close> returns
  the integer that the digits of the group spell, for a match of the pattern in the name;
  when the pattern does not match, and only then, it raises the \<open>RuntimeError\<close> that
  names the file. The name \<open>20210101_12345_S_SourceName-W0.40+035.root\<close> gives 12345.
\<close>

theorem MagicRoot_get_obs_id_spec:
  "((\<exists>g. magic_name fname g) \<longrightarrow>
      (\<exists>g. magic_name fname g \<and> MagicRoot_get_obs_id fname = Inr (int_of_digits g))) \<and>
   (\<not> (\<exists>g. magic_name fname g) \<longrightarrow>
      MagicRoot_get_obs_id fname =
        Inl (RuntimeError (''Can not find observations ID in '' @ fname))) \<and>
   MagicRoot_get_obs_id ''20210101_12345_S_SourceName-W0.40+035.root'' = Inr 12345"
proof (intro conjI impI)
  assume "\<exists>g. magic_name fname g"
  then have "\<not> (\<exists>e. MagicRoot_get_obs_id fname = Inl e)"
    unfolding MagicRoot_get_obs_id_def get_obs_id_Inl magic_occurs by simp
  then obtain n where n: "MagicRoot_get_obs_id fname = Inr n"
    by (cases "MagicRoot_get_obs_id fname") auto
  then obtain g where "occurs magic_pattern fname g" and "n = int_of_digits g"
    unfolding MagicRoot_get_obs_id_def using get_obs_id_Inr by blast
  then show "\<exists>g. magic_name fname g \<and> MagicRoot_get_obs_id fname = Inr (int_of_digits g)"
    using n magic_occurs by blast
next
  assume "\<not> (\<exists>g. magic_name fname g)"
  then have "\<exists>e. MagicRoot_get_obs_id fname = Inl e"
    unfolding MagicRoot_get_obs_id_def get_obs_id_Inl magic_occurs by simp
  then show "MagicRoot_get_obs_id fname =
        Inl (RuntimeError (''Can not find observations ID in '' @ fname))"
    unfolding MagicRoot_get_obs_id_def using get_obs_id_error by blast
next
  show "MagicRoot_get_obs_id ''20210101_12345_S_SourceName-W0.40+035.root'' = Inr 12345"
    by (rule magic_example_id)
qed

theorem MagicRoot_get_obs_id_spec_witness:
  "magic_name ''20210101_12345_S_SourceName-W0.40+035.root'' ''12345'' \<and>
   MagicRoot_get_obs_id ''20210101_12345_S_SourceName-W0.40+035.root'' = Inr 12345 \<and>
   \<not> (\<exists>g. magic_name ''20210101_S_SourceName-W0.40+035.root'' g) \<and>
   MagicRoot_get_obs_id ''20210101_S_SourceName-W0.40+035.root'' =
     Inl (RuntimeError ''Can not find observations ID in 20210101_S_SourceName-W0.40+035.root'')"
proof -
  have no: "\<not> (\<exists>g. magic_name ''20210101_S_SourceName-W0.40+035.root'' g)"
    using magic_example_no_id get_obs_id_Inl [of magic_pattern "''20210101_S_SourceName-W0.40+035.root''"]
    unfolding MagicRoot_get_obs_id_def magic_occurs by simp
  from MagicRoot_get_obs_id_spec [of "''20210101_S_SourceName-W0.40+035.root''"] no
  have "MagicRoot_get_obs_id ''20210101_S_SourceName-W0.40+035.root'' =
     Inl (RuntimeError (''Can not find observations ID in '' @ ''20210101_S_SourceName-W0.40+035.root''))"
    by blast
  moreover from MagicRoot_get_obs_id_spec [of "''20210101_12345_S_SourceName-W0.40+035.root''"]
    magic_example_name
  have "MagicRoot_get_obs_id ''20210101_12345_S_SourceName-W0.40+035.root'' = Inr 12345"
    by blast
  ultimately show ?thesis using magic_example_name no by simp
qed

end
